theory Spec2Isabelle
  imports Complex_Main "HOL-Library.Log_Nat"
begin

section \<open>JavaScript values\<close>

text \<open>
  The program is JavaScript over a Firestore document store. Documents are untyped
  objects, so the embedding carries a small universe of JavaScript values.

  Numbers are IEEE doubles: a finite double is the rational number it denotes, and
  \<open>NaN\<close> and the two infinities are values of their own. Every arithmetic operation
  computes the exact result and rounds it to the nearest double (\<open>round_double\<close>
  below), so sums round and overflow as they do in the program. The two zeros are one
  value.
\<close>

datatype jsnum = Fin rat | PInf | NInf | NaN

text \<open>
  A value that a document field can hold. \<open>undefined\<close> is not among them: a field that
  is \<open>undefined\<close> is a field the document does not have, so a JavaScript expression
  has type \<open>jsval option\<close> and \<open>None\<close> is \<open>undefined\<close>. Arrays, nested objects and
  Firestore timestamp objects are outside the model.
\<close>

datatype jsval = JNull | JBool bool | JNum jsnum | JStr string

text \<open>An object (a document's data): its fields. \<open>{...a, ...b}\<close> is \<open>a ++ b\<close>.\<close>

type_synonym doc = "string \<rightharpoonup> jsval"

text \<open>JavaScript truthiness, as tested by \<open>if (x)\<close>, \<open>!x\<close> and \<open>x || y\<close>.\<close>

fun truthy :: "jsval option \<Rightarrow> bool" where
  "truthy None = False"
| "truthy (Some JNull) = False"
| "truthy (Some (JBool b)) = b"
| "truthy (Some (JNum (Fin r))) = (r \<noteq> 0)"
| "truthy (Some (JNum NaN)) = False"
| "truthy (Some (JNum PInf)) = True"
| "truthy (Some (JNum NInf)) = True"
| "truthy (Some (JStr s)) = (s \<noteq> [])"

definition js_or :: "jsval option \<Rightarrow> jsval option \<Rightarrow> jsval option" where
  "js_or a b = (if truthy a then a else b)"

subsection \<open>Rounding to a double\<close>

text \<open>Rounding to the nearest integer, to the even one on a tie.\<close>

definition round_half_even :: "rat \<Rightarrow> int" where
  "round_half_even y =
     (let n = \<lfloor>y\<rfloor>
      in if y - of_int n < 1 / 2 then n
         else if y - of_int n > 1 / 2 then n + 1
         else if even n then n else n + 1)"

text \<open>The binary exponent of a positive number: \<open>2^e \<le> a < 2^(e + 1)\<close>.\<close>

definition floor_log2 :: "rat \<Rightarrow> int" where
  "floor_log2 a = (if a \<ge> 1 then bitlen \<lfloor>a\<rfloor> - 1 else - bitlen (\<lceil>1 / a\<rceil> - 1))"

text \<open>
  The spacing of the doubles at the magnitude \<open>a\<close>: 53 significant bits, and the
  spacing of the subnormal numbers, \<open>2^-1074\<close>, below \<open>2^-1022\<close>.
\<close>

definition quantum :: "rat \<Rightarrow> rat" where
  "quantum a = 2 powi (max (floor_log2 a) (- 1022) - 52)"

definition round_magnitude :: "rat \<Rightarrow> rat" where
  "round_magnitude a = of_int (round_half_even (a / quantum a)) * quantum a"

text \<open>
  Round to nearest, ties to even; a magnitude that rounds to \<open>2^1024\<close> or more is
  infinite.
\<close>

definition round_double :: "rat \<Rightarrow> jsnum" where
  "round_double x =
     (if x = 0 then Fin 0
      else if round_magnitude \<bar>x\<bar> \<ge> 2 ^ 1024 then (if x < 0 then NInf else PInf)
      else Fin (if x < 0 then - round_magnitude \<bar>x\<bar> else round_magnitude \<bar>x\<bar>))"

subsection \<open>Number arithmetic\<close>

fun num_neg :: "jsnum \<Rightarrow> jsnum" where
  "num_neg (Fin a) = Fin (- a)"
| "num_neg PInf = NInf"
| "num_neg NInf = PInf"
| "num_neg NaN = NaN"

fun num_add :: "jsnum \<Rightarrow> jsnum \<Rightarrow> jsnum" where
  "num_add NaN _ = NaN"
| "num_add _ NaN = NaN"
| "num_add (Fin a) (Fin b) = round_double (a + b)"
| "num_add PInf NInf = NaN"
| "num_add NInf PInf = NaN"
| "num_add PInf _ = PInf"
| "num_add NInf _ = NInf"
| "num_add (Fin a) PInf = PInf"
| "num_add (Fin a) NInf = NInf"

definition num_sub :: "jsnum \<Rightarrow> jsnum \<Rightarrow> jsnum" where
  "num_sub a b = num_add a (num_neg b)"

text \<open>The sign of a non-\<open>NaN\<close> number: \<open>-1\<close>, \<open>0\<close> or \<open>1\<close>.\<close>

fun num_sgn :: "jsnum \<Rightarrow> int" where
  "num_sgn (Fin a) = (if a < 0 then - 1 else if a = 0 then 0 else 1)"
| "num_sgn PInf = 1"
| "num_sgn NInf = - 1"
| "num_sgn NaN = 0"

fun num_mul :: "jsnum \<Rightarrow> jsnum \<Rightarrow> jsnum" where
  "num_mul NaN _ = NaN"
| "num_mul _ NaN = NaN"
| "num_mul (Fin a) (Fin b) = round_double (a * b)"
| "num_mul a b =
     (if num_sgn a * num_sgn b = 0 then NaN
      else if num_sgn a * num_sgn b > 0 then PInf else NInf)"

text \<open>
  Division. With one zero only, a finite non-zero number divided by zero takes the sign
  of the dividend.
\<close>

fun num_div :: "jsnum \<Rightarrow> jsnum \<Rightarrow> jsnum" where
  "num_div NaN _ = NaN"
| "num_div _ NaN = NaN"
| "num_div (Fin a) (Fin b) =
     (if b \<noteq> 0 then round_double (a / b)
      else if a = 0 then NaN else if a > 0 then PInf else NInf)"
| "num_div (Fin a) _ = Fin 0"
| "num_div a (Fin b) = (if num_sgn a * (if b < 0 then - 1 else 1) > 0 then PInf else NInf)"
| "num_div _ _ = NaN"

text \<open>\<open>a >= b\<close> on numbers: false as soon as one side is \<open>NaN\<close>.\<close>

fun num_ge :: "jsnum \<Rightarrow> jsnum \<Rightarrow> bool" where
  "num_ge NaN _ = False"
| "num_ge _ NaN = False"
| "num_ge (Fin a) (Fin b) = (a \<ge> b)"
| "num_ge PInf _ = True"
| "num_ge _ NInf = True"
| "num_ge _ _ = False"

text \<open>\<open>Math.max(a, b)\<close>: \<open>NaN\<close> as soon as one argument is \<open>NaN\<close>.\<close>

definition Math_max :: "jsnum \<Rightarrow> jsnum \<Rightarrow> jsnum" where
  "Math_max a b = (if a = NaN \<or> b = NaN then NaN else if num_ge a b then a else b)"

fun Math_ceil :: "jsnum \<Rightarrow> jsnum" where
  "Math_ceil (Fin a) = Fin (of_int \<lceil>a\<rceil>)"
| "Math_ceil n = n"

subsection \<open>The runtime's conversions\<close>

text \<open>
  Three conversions of the JavaScript runtime are taken as parameters, since the
  program only calls them and nothing in it fixes their tables: the date parser behind
  \<open>new Date(string)\<close> (milliseconds since the epoch, or \<open>NaN\<close> for an invalid date),
  \<open>Number::toString\<close>, and the string-to-number conversion of \<open>ToNumber\<close>.
\<close>

record runtime =
  dateParse :: "string \<Rightarrow> jsnum"
  numberToString :: "jsnum \<Rightarrow> string"
  stringToNumber :: "string \<Rightarrow> jsnum"

fun ToNumber :: "runtime \<Rightarrow> jsval option \<Rightarrow> jsnum" where
  "ToNumber rt None = NaN"
| "ToNumber rt (Some JNull) = Fin 0"
| "ToNumber rt (Some (JBool b)) = Fin (if b then 1 else 0)"
| "ToNumber rt (Some (JNum n)) = n"
| "ToNumber rt (Some (JStr s)) = stringToNumber rt s"

fun ToString :: "runtime \<Rightarrow> jsval option \<Rightarrow> string" where
  "ToString rt None = ''undefined''"
| "ToString rt (Some JNull) = ''null''"
| "ToString rt (Some (JBool b)) = (if b then ''true'' else ''false'')"
| "ToString rt (Some (JNum n)) = numberToString rt n"
| "ToString rt (Some (JStr s)) = s"

fun is_string :: "jsval option \<Rightarrow> bool" where
  "is_string (Some (JStr s)) = True"
| "is_string _ = False"

text \<open>
  The binary \<open>+\<close> (and \<open>+=\<close>): concatenation as soon as one operand is a string,
  numeric addition otherwise.
\<close>

definition js_add :: "runtime \<Rightarrow> jsval option \<Rightarrow> jsval option \<Rightarrow> jsval" where
  "js_add rt a b =
     (if is_string a \<or> is_string b then JStr (ToString rt a @ ToString rt b)
      else JNum (num_add (ToNumber rt a) (ToNumber rt b)))"

text \<open>The operators \<open>*\<close>, \<open>-\<close>, \<open>/\<close> and \<open>>=\<close>, which convert both operands to numbers.\<close>

definition js_mul :: "runtime \<Rightarrow> jsval option \<Rightarrow> jsval option \<Rightarrow> jsnum" where
  "js_mul rt a b = num_mul (ToNumber rt a) (ToNumber rt b)"

definition js_sub :: "runtime \<Rightarrow> jsval option \<Rightarrow> jsval option \<Rightarrow> jsnum" where
  "js_sub rt a b = num_sub (ToNumber rt a) (ToNumber rt b)"

definition js_div :: "runtime \<Rightarrow> jsval option \<Rightarrow> jsval option \<Rightarrow> jsnum" where
  "js_div rt a b = num_div (ToNumber rt a) (ToNumber rt b)"

subsection \<open>Digits\<close>

definition digit_chars :: string where
  "digit_chars = ''0123456789abcdefghijklmnopqrstuvwxyz''"

text \<open>The digits of a natural number in radix \<open>b\<close> (\<open>2 \<le> b \<le> 36\<close>), most significant first.\<close>

function radix_digits :: "nat \<Rightarrow> nat \<Rightarrow> string" where
  "radix_digits b n =
     (if n < b \<or> b < 2 then [digit_chars ! n]
      else radix_digits b (n div b) @ [digit_chars ! (n mod b)])"
  by pat_completeness auto
termination
  by (relation "measure snd") auto

declare radix_digits.simps [simp del]

definition is_digit :: "char \<Rightarrow> bool" where
  "is_digit c = (c \<in> set ''0123456789'')"

definition digit_val :: "char \<Rightarrow> nat" where
  "digit_val c = of_char c - 48"

definition decimal_val :: "string \<Rightarrow> nat" where
  "decimal_val ds = foldl (\<lambda>acc c. 10 * acc + digit_val c) 0 ds"

subsection \<open>\<open>parseFloat\<close> and \<open>toFixed\<close>\<close>

text \<open>ASCII white space; the Unicode space characters are outside the byte model.\<close>

definition is_space :: "char \<Rightarrow> bool" where
  "is_space c = (of_char c \<in> {9, 10, 11, 12, 13, 32 :: nat})"

text \<open>
  The exponent part \<open>e\<close>, \<open>e+\<close> or \<open>e-\<close> followed by at least one digit; anything else
  is not an exponent and is ignored, like every other trailing character.
\<close>

definition exponent_part :: "string \<Rightarrow> int" where
  "exponent_part s =
     (case s of
        [] \<Rightarrow> 0
      | c # r \<Rightarrow>
          if c = CHR ''e'' \<or> c = CHR ''E'' then
            (case r of
               [] \<Rightarrow> 0
             | d # r' \<Rightarrow>
                 if d = CHR ''-'' then
                   (if takeWhile is_digit r' = [] then 0
                    else - int (decimal_val (takeWhile is_digit r')))
                 else if d = CHR ''+'' then int (decimal_val (takeWhile is_digit r'))
                 else int (decimal_val (takeWhile is_digit r)))
          else 0)"

definition pow10 :: "int \<Rightarrow> rat" where
  "pow10 e = (if e \<ge> 0 then 10 ^ nat e else 1 / 10 ^ nat (- e))"

text \<open>
  \<open>parseFloat\<close> on a string: skip leading white space, read the longest prefix that is a
  decimal literal (sign, digits, fraction, exponent, or \<open>Infinity\<close>), \<open>NaN\<close> when
  there is none. The value is the decimal rounded to the nearest double.
\<close>

definition parseFloat_string :: "string \<Rightarrow> jsnum" where
  "parseFloat_string s =
     (let t = dropWhile is_space s;
          neg = (t \<noteq> [] \<and> hd t = CHR ''-'');
          u = (if t \<noteq> [] \<and> (hd t = CHR ''-'' \<or> hd t = CHR ''+'') then tl t else t)
      in if take 8 u = ''Infinity'' then (if neg then NInf else PInf)
         else
           let ip = takeWhile is_digit u;
               r1 = dropWhile is_digit u;
               dot = (r1 \<noteq> [] \<and> hd r1 = CHR ''.'');
               fp = (if dot then takeWhile is_digit (tl r1) else []);
               r2 = (if dot then dropWhile is_digit (tl r1) else r1)
           in if ip = [] \<and> fp = [] then NaN
              else round_double
                     ((if neg then - 1 else 1)
                      * (of_nat (decimal_val ip) + of_nat (decimal_val fp) / 10 ^ length fp)
                      * pow10 (exponent_part r2)))"

text \<open>
  \<open>parseFloat(v)\<close> converts \<open>v\<close> to a string and parses it. For a number the string is
  the shortest decimal that reads back as the same number, so the result is the number
  itself; \<open>undefined\<close>, \<open>null\<close> and booleans print as words, which parse to \<open>NaN\<close>.
\<close>

fun parseFloat :: "jsval option \<Rightarrow> jsnum" where
  "parseFloat (Some (JStr s)) = parseFloat_string s"
| "parseFloat (Some (JNum n)) = n"
| "parseFloat (Some (JBool b)) = parseFloat_string (if b then ''true'' else ''false'')"
| "parseFloat (Some JNull) = parseFloat_string ''null''"
| "parseFloat None = parseFloat_string ''undefined''"

text \<open>
  \<open>x.toFixed(f)\<close>: the decimal with \<open>f\<close> fraction digits nearest to \<open>x\<close>, the larger one
  on a tie; numbers from \<open>10^21\<close> on print as \<open>Number::toString\<close> does.
\<close>

definition toFixed :: "runtime \<Rightarrow> jsnum \<Rightarrow> nat \<Rightarrow> string" where
  "toFixed rt x f =
     (case x of
        NaN \<Rightarrow> ''NaN''
      | PInf \<Rightarrow> ''Infinity''
      | NInf \<Rightarrow> ''-Infinity''
      | Fin r \<Rightarrow>
          (if r < 0 then ''-'' else []) @
          (if \<bar>r\<bar> \<ge> 10 ^ 21 then numberToString rt (Fin \<bar>r\<bar>)
           else
             let n = nat \<lfloor>\<bar>r\<bar> * 10 ^ f + 1 / 2\<rfloor>;
                 m = radix_digits 10 n;
                 m' = replicate (f + 1 - length m) (CHR ''0'') @ m
             in if f = 0 then m
                else take (length m' - f) m' @ ''.'' @ drop (length m' - f) m'))"

subsection \<open>Dates\<close>

text \<open>
  \<open>new Date(v).getTime()\<close>: a string is parsed by the runtime, a number is a time value
  (truncated to an integer, \<open>NaN\<close> outside the range of \<open>8.64e15\<close> milliseconds), any
  other value is converted to a number first.
\<close>

definition TimeClip :: "jsnum \<Rightarrow> jsnum" where
  "TimeClip n =
     (case n of
        Fin r \<Rightarrow>
          if \<bar>r\<bar> \<le> 8640000000000000
          then Fin (of_int (if r \<ge> 0 then \<lfloor>r\<rfloor> else \<lceil>r\<rceil>)) else NaN
      | _ \<Rightarrow> NaN)"

fun Date_getTime :: "runtime \<Rightarrow> jsval option \<Rightarrow> jsnum" where
  "Date_getTime rt (Some (JStr s)) = dateParse rt s"
| "Date_getTime rt v = TimeClip (ToNumber rt v)"

section \<open>The document store\<close>

text \<open>
  A collection is the list of its documents, each with its key, in the order in which a
  query returns them; the store is the collections by name, \<open>db ''orders''\<close> being
  \<open>db.collection('orders')\<close>.
\<close>

type_synonym collection = "(string \<times> doc) list"

type_synonym firestore = "string \<Rightarrow> collection"

definition empty_store :: firestore where
  "empty_store = (\<lambda>c. [])"

text \<open>
  Modelled from the spec: the document store adapter (the Firestore client library is
  not among the sources), with the interface of the spec's section 6: get by key, query
  by equality filter, insert with a generated key, update and merge-set of one document.
  The generated key of an insert is chosen by the store and is an argument here. The
  operations are sequential: no other writer runs between two calls.
\<close>

definition doc_get :: "firestore \<Rightarrow> string \<Rightarrow> string \<Rightarrow> doc option" where
  "doc_get db c k = map_of (db c) k"

definition coll_add :: "firestore \<Rightarrow> string \<Rightarrow> string \<Rightarrow> doc \<Rightarrow> firestore" where
  "coll_add db c k d = db(c := db c @ [(k, d)])"

text \<open>\<open>ref.update(upd)\<close>: overwrite the named fields of an existing document.\<close>

definition doc_update :: "firestore \<Rightarrow> string \<Rightarrow> string \<Rightarrow> doc \<Rightarrow> firestore" where
  "doc_update db c k upd =
     db(c := map (\<lambda>(i, d). if i = k then (i, d ++ upd) else (i, d)) (db c))"

text \<open>\<open>ref.set(data)\<close>: replace the document, or create it.\<close>

definition doc_set :: "firestore \<Rightarrow> string \<Rightarrow> string \<Rightarrow> doc \<Rightarrow> firestore" where
  "doc_set db c k data =
     (if map_of (db c) k = None then db(c := db c @ [(k, data)])
      else db(c := map (\<lambda>(i, d). if i = k then (i, data) else (i, d)) (db c)))"

text \<open>\<open>ref.set(data, {merge: true})\<close>: overwrite the named fields, or create the document.\<close>

definition doc_set_merge :: "firestore \<Rightarrow> string \<Rightarrow> string \<Rightarrow> doc \<Rightarrow> firestore" where
  "doc_set_merge db c k data =
     (if map_of (db c) k = None then db(c := db c @ [(k, data)])
      else doc_update db c k data)"

text \<open>
  \<open>query.where(field, '==', v)\<close> and \<open>query.where(field, 'in', vs)\<close>. A document
  matches when it has the field with an equal value; no document matches \<open>undefined\<close>.
\<close>

definition where_eq :: "string \<Rightarrow> jsval option \<Rightarrow> collection \<Rightarrow> collection" where
  "where_eq field v docs = filter (\<lambda>(i, d). v \<noteq> None \<and> d field = v) docs"

definition where_in :: "string \<Rightarrow> jsval list \<Rightarrow> collection \<Rightarrow> collection" where
  "where_in field vs docs =
     filter (\<lambda>(i, d). case d field of None \<Rightarrow> False | Some v \<Rightarrow> v \<in> set vs) docs"

text \<open>The object \<open>{ id: doc.id, ...doc.data() }\<close>; the data of a missing document is
  \<open>undefined\<close>, which spreads to nothing.\<close>

definition with_id :: "string \<Rightarrow> doc \<Rightarrow> doc" where
  "with_id i data = [''id'' \<mapsto> JStr i] ++ data"

definition snapshot_object :: "string \<Rightarrow> doc option \<Rightarrow> doc" where
  "snapshot_object i snap = with_id i (case snap of None \<Rightarrow> Map.empty | Some data \<Rightarrow> data)"

definition snapshot_objects :: "collection \<Rightarrow> doc list" where
  "snapshot_objects docs = map (\<lambda>(i, d). with_id i d) docs"

section \<open>The helper functions\<close>

text \<open>
  Every function takes what it reads from its environment as leading arguments (the
  clock as \<open>Date.now()\<close> or as the string \<open>new Date().toISOString()\<close>, the string
  \<open>Math.random().toString(36)\<close>, the key the store generates), then the arguments of the
  JavaScript function, then the store; it returns its result and the store after the call.
  A thrown \<open>Error\<close> is a value.
\<close>

datatype error = Error string | InvalidDocumentKey

definition generateId :: "int \<Rightarrow> string \<Rightarrow> string" where
  "generateId now rnd =
     ((if now < 0 then ''-'' else []) @ radix_digits 36 (nat \<bar>now\<bar>))
     @ ''-'' @ take (8 - 2) (drop 2 rnd)"

definition createOrder ::
  "int \<Rightarrow> string \<Rightarrow> string \<Rightarrow> doc \<Rightarrow> firestore \<Rightarrow> doc \<times> firestore" where
  "createOrder now rnd newId data db =
     (let order = data ++ [''_customId'' \<mapsto> JStr (generateId now rnd)];
          db' = coll_add db ''orders'' newId order
      in (with_id newId order, db'))"

definition listOrders :: "jsval option \<Rightarrow> firestore \<Rightarrow> doc list" where
  "listOrders email db =
     (let query = (if truthy email then where_eq ''email'' email (db ''orders'')
                   else db ''orders'')
      in snapshot_objects query)"

definition createRedemption ::
  "int \<Rightarrow> string \<Rightarrow> string \<Rightarrow> doc \<Rightarrow> firestore \<Rightarrow> doc \<times> firestore" where
  "createRedemption now rnd newId data db =
     (let redemption = data ++ [''_customId'' \<mapsto> JStr (generateId now rnd)];
          db' = coll_add db ''redemptions'' newId redemption
      in (with_id newId redemption, db'))"

definition listRedemptions :: "jsval option \<Rightarrow> firestore \<Rightarrow> doc list" where
  "listRedemptions email db =
     (let query = (if truthy email then where_eq ''email'' email (db ''redemptions'')
                   else db ''redemptions'')
      in snapshot_objects query)"

text \<open>The result \<open>None\<close> is \<open>null\<close>.\<close>

definition approveRedemption :: "string \<Rightarrow> string \<Rightarrow> firestore \<Rightarrow> doc option \<times> firestore" where
  "approveRedemption nowIso i db =
     (case doc_get db ''redemptions'' i of
        None \<Rightarrow> (None, db)
      | Some data \<Rightarrow>
          if data ''status'' = Some (JStr ''approved'') then (Some (with_id i data), db)
          else
            let db' = doc_update db ''redemptions'' i
                        [''status'' \<mapsto> JStr ''approved'', ''approvedAt'' \<mapsto> JStr nowIso]
            in (Some (snapshot_object i (doc_get db' ''redemptions'' i)), db'))"

text \<open>
  \<open>createUser\<close>: \<open>const { email, ...rest } = data\<close>. The document key is the email, which
  the store takes only as a string.
\<close>

definition createUser :: "string \<Rightarrow> doc \<Rightarrow> firestore \<Rightarrow> error + doc \<times> firestore" where
  "createUser now data db =
     (let email = data ''email''; rest = data(''email'' := None)
      in if \<not> truthy email then Inl (Error ''Email is required to create a user'')
         else
           (case email of
              Some (JStr e) \<Rightarrow>
                let db' =
                  (case doc_get db ''users'' e of
                     Some existing \<Rightarrow>
                       doc_set_merge db ''users'' e
                         (existing ++ rest ++ [''updatedAt'' \<mapsto> JStr now])
                   | None \<Rightarrow>
                       doc_set db ''users'' e
                         ([''email'' \<mapsto> JStr e] ++ rest
                          ++ [''createdAt'' \<mapsto> JStr now, ''updatedAt'' \<mapsto> JStr now]))
                in Inr (snapshot_object e (doc_get db' ''users'' e), db')
            | _ \<Rightarrow> Inl InvalidDocumentKey))"

text \<open>The loop of \<open>claimOrder\<close> over the documents of the query, with \<open>updatedOrder\<close>.\<close>

fun claim_docs ::
  "jsval option \<Rightarrow> collection \<Rightarrow> doc option \<Rightarrow> firestore \<Rightarrow> doc option \<times> firestore" where
  "claim_docs email [] updatedOrder db = (updatedOrder, db)"
| "claim_docs email ((i, data) # docs) updatedOrder db =
     (let db' = (if \<not> truthy (data ''userEmail'')
                 then doc_update db ''orders'' i (Map.empty(''userEmail'' := email))
                 else db);
          refreshed = doc_get db' ''orders'' i
      in claim_docs email docs (Some (snapshot_object i refreshed)) db')"

definition claimOrder ::
  "jsval option \<Rightarrow> jsval option \<Rightarrow> firestore \<Rightarrow> error + doc option \<times> firestore" where
  "claimOrder orderId email db =
     (if \<not> truthy orderId \<or> \<not> truthy email then Inl (Error ''orderId and email are required'')
      else
        let snapshot = where_eq ''orderId'' orderId (db ''orders'')
        in if snapshot = [] then Inr (None, db)
           else Inr (claim_docs email snapshot None db))"

definition getGoldPrice :: "jsval option \<Rightarrow> firestore \<Rightarrow> jsval option" where
  "getGoldPrice defaultPrice db =
     (case doc_get db ''config'' ''goldPrice'' of
        None \<Rightarrow> defaultPrice
      | Some data \<Rightarrow> data ''price'')"


subsection \<open>The dashboard\<close>

record progress =
  current :: jsval
  nextMilestone :: jsnum
  progressPercent :: jsnum

record dashboard =
  totalGrams :: jsval
  totalValue :: jsnum
  redeemableGrams :: jsnum
  currentPrice :: "jsval option"
  orders :: "doc list"
  shops :: "doc list"
  progress :: progress

definition thirtyDays :: rat where
  "thirtyDays = 30 * 24 * 60 * 60 * 1000"

text \<open>\<open>order.rewardGrams || 0\<close> and \<open>data.grams || 0\<close>.\<close>

definition or_zero :: "jsval option \<Rightarrow> jsval option" where
  "or_zero v = js_or v (Some (JNum (Fin 0)))"

text \<open>
  The earning time of an order and the test of the vesting rule, as the loop body
  computes them: \<open>order.createdAt ? new Date(order.createdAt).getTime() : now\<close> and
  \<open>now - createdTime >= thirtyDays\<close>.
\<close>

definition createdTime :: "runtime \<Rightarrow> int \<Rightarrow> doc \<Rightarrow> jsnum" where
  "createdTime rt now order =
     (if truthy (order ''createdAt'') then Date_getTime rt (order ''createdAt'')
      else Fin (of_int now))"

definition vested :: "runtime \<Rightarrow> int \<Rightarrow> doc \<Rightarrow> bool" where
  "vested rt now order =
     num_ge (num_sub (Fin (of_int now)) (createdTime rt now order)) (Fin thirtyDays)"

text \<open>
  The loop over the user's orders, on the three accumulators \<open>totalGrams\<close>,
  \<open>totalValue\<close> and \<open>redeemableGrams\<close>. \<open>totalValue\<close> only ever receives products, so
  it stays a number; the other two receive field values and are strings as soon as a
  field is one.
\<close>

fun order_loop ::
  "runtime \<Rightarrow> int \<Rightarrow> jsval option \<Rightarrow> doc list \<Rightarrow> jsval \<times> jsnum \<times> jsval
   \<Rightarrow> jsval \<times> jsnum \<times> jsval" where
  "order_loop rt now price [] acc = acc"
| "order_loop rt now price (order # rest) (tGrams, tValue, rGrams) =
     order_loop rt now price rest
       (js_add rt (Some tGrams) (or_zero (order ''rewardGrams'')),
        num_add tValue (js_mul rt (or_zero (order ''rewardGrams'')) price),
        if vested rt now order
        then js_add rt (Some rGrams) (or_zero (order ''rewardGrams''))
        else rGrams)"

text \<open>The loop over the outstanding redemptions, on the accumulator \<open>redeemed\<close>.\<close>

fun redemption_loop :: "runtime \<Rightarrow> collection \<Rightarrow> jsval \<Rightarrow> jsval" where
  "redemption_loop rt [] redeemed = redeemed"
| "redemption_loop rt ((i, data) # rest) redeemed =
     redemption_loop rt rest (js_add rt (Some redeemed) (or_zero (data ''grams'')))"

definition getDashboardData ::
  "runtime \<Rightarrow> int \<Rightarrow> jsval option \<Rightarrow> jsval option \<Rightarrow> firestore \<Rightarrow> dashboard" where
  "getDashboardData rt now email defaultPrice db =
     (let price = getGoldPrice defaultPrice db;
          orderSnap = where_eq ''userEmail'' email (db ''orders'');
          userOrders = snapshot_objects orderSnap;
          (tGrams, tValue, rGrams) =
             order_loop rt now price userOrders (JNum (Fin 0), Fin 0, JNum (Fin 0));
          redemptionsSnap =
             where_in ''status'' [JStr ''pending'', JStr ''approved'']
               (where_eq ''email'' email (db ''redemptions''));
          redeemed = redemption_loop rt redemptionsSnap (JNum (Fin 0));
          ceiled = Math_ceil (ToNumber rt (Some tGrams));
          milestone = (if truthy (Some (JNum ceiled)) then ceiled else Fin 1)
      in \<lparr> totalGrams = tGrams,
           totalValue = parseFloat (Some (JStr (toFixed rt tValue 2))),
           redeemableGrams = Math_max (js_sub rt (Some rGrams) (Some redeemed)) (Fin 0),
           currentPrice = price,
           orders = userOrders,
           shops = snapshot_objects (db ''shops''),
           progress = \<lparr> current = tGrams,
                        nextMilestone = milestone,
                        progressPercent = js_div rt (Some tGrams) (Some (JNum milestone)) \<rparr> \<rparr>)"

text \<open>Reading one field of a stored document, for stating what a call leaves in the store.\<close>

definition stored_field :: "firestore \<Rightarrow> string \<Rightarrow> string \<Rightarrow> string \<Rightarrow> jsval option" where
  "stored_field db c k f = (case doc_get db c k of None \<Rightarrow> None | Some d \<Rightarrow> d f)"

text \<open>The store's invariant that a collection holds one document per key.\<close>

definition unique_keys :: "firestore \<Rightarrow> string \<Rightarrow> bool" where
  "unique_keys db c = distinct (map fst (db c))"

subsection \<open>The quantities of the specification\<close>

text \<open>
  The quantities the specification names, for stating the dashboard's balance. The grams
  a field holds are the number in it, and zero when the field is missing or holds
  nothing that counts.
\<close>

definition grams_of :: "jsval option \<Rightarrow> jsnum" where
  "grams_of v = (case v of Some (JNum NaN) \<Rightarrow> Fin 0 | Some (JNum n) \<Rightarrow> n | _ \<Rightarrow> Fin 0)"

text \<open>A quantity field as the data model has it: a number, or nothing that counts.\<close>

definition quantity_field :: "jsval option \<Rightarrow> bool" where
  "quantity_field v = (case v of Some (JNum n) \<Rightarrow> True | _ \<Rightarrow> \<not> truthy v)"

text \<open>A sum of numbers, in the number type: doubles, added from the left.\<close>

definition double_sum :: "jsnum list \<Rightarrow> jsnum" where
  "double_sum ns = foldl num_add (Fin 0) ns"

text \<open>The vested sum: the grams of the user's orders that pass the vesting rule.\<close>

definition vestedGramsSum :: "runtime \<Rightarrow> int \<Rightarrow> jsval \<Rightarrow> firestore \<Rightarrow> jsnum" where
  "vestedGramsSum rt now email db =
     double_sum (map (\<lambda>(i, d). grams_of (d ''rewardGrams''))
       (filter (\<lambda>(i, d). d ''userEmail'' = Some email \<and> vested rt now d) (db ''orders'')))"

text \<open>The user's outstanding redemptions: those whose status is pending or approved.\<close>

definition outstandingRedemptions :: "jsval \<Rightarrow> firestore \<Rightarrow> collection" where
  "outstandingRedemptions email db =
     filter (\<lambda>(i, d). d ''email'' = Some email \<and>
                (d ''status'' = Some (JStr ''pending'') \<or> d ''status'' = Some (JStr ''approved'')))
       (db ''redemptions'')"

definition sumOfOutstandingRedemptionGrams :: "jsval \<Rightarrow> firestore \<Rightarrow> jsnum" where
  "sumOfOutstandingRedemptionGrams email db =
     double_sum (map (\<lambda>(i, d). grams_of (d ''grams'')) (outstandingRedemptions email db))"

definition num_negative :: "jsnum \<Rightarrow> bool" where
  "num_negative n = (case n of Fin r \<Rightarrow> r < 0 | NInf \<Rightarrow> True | _ \<Rightarrow> False)"

text \<open>
  The vesting rule in the specification's words: an order counts when
  \<open>now - createdAt >= 30 days\<close>, \<open>createdAt\<close> being the time its date string denotes; an
  order without \<open>createdAt\<close> does not count.
\<close>

definition earnedThirtyDaysAgo :: "runtime \<Rightarrow> int \<Rightarrow> doc \<Rightarrow> bool" where
  "earnedThirtyDaysAgo rt now order =
     (case order ''createdAt'' of
        Some (JStr c) \<Rightarrow>
          c \<noteq> [] \<and>
          (case dateParse rt c of
             Fin t \<Rightarrow> of_int now - t \<ge> 30 * 24 * 60 * 60 * 1000
           | _ \<Rightarrow> False)
      | _ \<Rightarrow> False)"

text \<open>
  A \<open>createdAt\<close> field as the data model has it: missing, or a date string, which the
  runtime parses to a whole number of milliseconds or, when it is no date, to \<open>NaN\<close>.
\<close>

definition iso_createdAt :: "runtime \<Rightarrow> doc \<Rightarrow> bool" where
  "iso_createdAt rt order =
     (case order ''createdAt'' of
        None \<Rightarrow> True
      | Some (JStr c) \<Rightarrow>
          (case dateParse rt c of
             Fin t \<Rightarrow> t = of_int \<lfloor>t\<rfloor>
           | NaN \<Rightarrow> True
           | _ \<Rightarrow> False)
      | _ \<Rightarrow> False)"


section \<open>Properties\<close>

subsection \<open>Rounding\<close>

lemma powi_nonneg: "e \<ge> 0 \<Longrightarrow> (2::rat) powi e = 2 ^ nat e"
  by (simp add: power_int_def)

lemma powi_neg: "e \<le> 0 \<Longrightarrow> (2::rat) powi e = 1 / 2 ^ nat (- e)"
  by (cases "e = 0") (simp_all add: power_int_def field_simps)

lemma floor_log2_ge1:
  assumes "a \<ge> 1"
  shows "2 powi (floor_log2 a) \<le> a" and "a < 2 powi (floor_log2 a + 1)"
proof -
  from assms have pos: "\<lfloor>a\<rfloor> > 0" by simp
  then have k: "bitlen \<lfloor>a\<rfloor> \<ge> 1" by (simp add: bitlen_alt_def)
  from bitlen_bounds [OF pos]
  have lo: "(2::int) ^ nat (bitlen \<lfloor>a\<rfloor> - 1) \<le> \<lfloor>a\<rfloor>"
    and hi: "\<lfloor>a\<rfloor> < (2::int) ^ nat (bitlen \<lfloor>a\<rfloor>)" by simp_all
  have fl: "of_int \<lfloor>a\<rfloor> \<le> a" "a < of_int \<lfloor>a\<rfloor> + 1"
    using floor_correct [of a] by simp_all
  from lo have "(of_int ((2::int) ^ nat (bitlen \<lfloor>a\<rfloor> - 1)) :: rat) \<le> of_int \<lfloor>a\<rfloor>"
    by (simp only: of_int_le_iff)
  with fl(1) have "(of_int ((2::int) ^ nat (bitlen \<lfloor>a\<rfloor> - 1)) :: rat) \<le> a"
    by linarith
  then have "(2::rat) ^ nat (bitlen \<lfloor>a\<rfloor> - 1) \<le> a" by simp
  then show "2 powi (floor_log2 a) \<le> a"
    using assms k by (simp add: floor_log2_def powi_nonneg)
  from hi have "\<lfloor>a\<rfloor> + 1 \<le> (2::int) ^ nat (bitlen \<lfloor>a\<rfloor>)" by simp
  then have "(of_int (\<lfloor>a\<rfloor> + 1) :: rat) \<le> of_int ((2::int) ^ nat (bitlen \<lfloor>a\<rfloor>))"
    by (simp only: of_int_le_iff)
  then have "(of_int \<lfloor>a\<rfloor> + 1 :: rat) \<le> of_int ((2::int) ^ nat (bitlen \<lfloor>a\<rfloor>))"
    by simp
  with fl(2) have "a < of_int ((2::int) ^ nat (bitlen \<lfloor>a\<rfloor>))" by linarith
  then have "a < (2::rat) ^ nat (bitlen \<lfloor>a\<rfloor>)" by simp
  then show "a < 2 powi (floor_log2 a + 1)"
    using assms k by (simp add: floor_log2_def powi_nonneg)
qed

lemma floor_log2_lt1:
  assumes "0 < a" "a < 1"
  shows "2 powi (floor_log2 a) \<le> a" and "a < 2 powi (floor_log2 a + 1)"
proof -
  define m where "m = \<lceil>1 / a\<rceil>"
  define k where "k = bitlen (m - 1)"
  have e: "floor_log2 a = - k" using assms by (simp add: floor_log2_def m_def k_def)
  have b: "1 / a > 1" using assms by simp
  have cl: "of_int m - 1 < 1 / a" "1 / a \<le> of_int m"
    using ceiling_correct [of "1 / a"] by (simp_all add: m_def)
  from b cl(2) have "(1::rat) < of_int m" by linarith
  then have "1 < m" by simp
  then have pos: "m - 1 > 0" by simp
  then have k: "k \<ge> 1" by (simp add: bitlen_alt_def k_def)
  from bitlen_bounds [OF pos]
  have lo: "(2::int) ^ nat (k - 1) \<le> m - 1" and hi: "m - 1 < (2::int) ^ nat k"
    by (simp_all add: k_def)
  from hi have "m \<le> (2::int) ^ nat k" by simp
  then have "(of_int m :: rat) \<le> of_int ((2::int) ^ nat k)" by (simp only: of_int_le_iff)
  with cl(2) have "1 / a \<le> of_int ((2::int) ^ nat k)" by linarith
  then have up: "1 / a \<le> (2::rat) ^ nat k" by simp
  have p: "(0::rat) < 2 ^ nat k" by simp
  from up assms(1) have "1 \<le> 2 ^ nat k * a"
    by (simp add: pos_divide_le_eq)
  with p have "1 / 2 ^ nat k \<le> a"
    by (simp add: pos_divide_le_eq mult.commute)
  then show "2 powi (floor_log2 a) \<le> a"
    using k by (simp add: e powi_neg)
  from lo have "(of_int ((2::int) ^ nat (k - 1)) :: rat) \<le> of_int (m - 1)"
    by (simp only: of_int_le_iff)
  then have "(of_int ((2::int) ^ nat (k - 1)) :: rat) \<le> of_int m - 1" by simp
  with cl(1) have "of_int ((2::int) ^ nat (k - 1)) < 1 / a" by linarith
  then have low: "(2::rat) ^ nat (k - 1) < 1 / a" by simp
  have p': "(0::rat) < 2 ^ nat (k - 1)" by simp
  from low assms(1) have "2 ^ nat (k - 1) * a < 1"
    by (simp add: pos_less_divide_eq)
  with p' have "a < 1 / 2 ^ nat (k - 1)"
    by (simp add: pos_less_divide_eq mult.commute)
  then have "a < 1 / 2 ^ nat (k - 1)" .
  moreover have "floor_log2 a + 1 = - (k - 1)" by (simp add: e)
  moreover have "(2::rat) powi (- (k - 1)) = 1 / 2 ^ nat (k - 1)"
    using k powi_neg [of "- (k - 1)"] by simp
  ultimately show "a < 2 powi (floor_log2 a + 1)"
    by (simp only:)
qed

lemma floor_log2_bounds:
  assumes "a > 0"
  shows "2 powi (floor_log2 a) \<le> a" and "a < 2 powi (floor_log2 a + 1)"
proof -
  show "2 powi (floor_log2 a) \<le> a"
    using assms floor_log2_ge1(1) [of a] floor_log2_lt1(1) [of a] by (cases "a \<ge> 1") simp_all
  show "a < 2 powi (floor_log2 a + 1)"
    using assms floor_log2_ge1(2) [of a] floor_log2_lt1(2) [of a] by (cases "a \<ge> 1") simp_all
qed


lemma round_half_even_int: "round_half_even (of_int z) = z"
  by (simp add: round_half_even_def)

lemma round_half_even_ge: "of_int z \<le> y \<Longrightarrow> z \<le> round_half_even y"
proof -
  assume "of_int z \<le> y"
  then have "z \<le> \<lfloor>y\<rfloor>" by (simp add: le_floor_iff)
  then show ?thesis by (simp add: round_half_even_def Let_def)
qed

lemma round_double_neg: "round_double (- x) = num_neg (round_double x)"
  by (simp add: round_double_def)

lemma round_magnitude_representable:
  assumes "x / quantum x = of_int z"
  shows "round_magnitude x = x"
proof -
  have q: "quantum x \<noteq> 0" by (simp add: quantum_def)
  have "round_half_even (x / quantum x) = z"
    by (simp only: assms round_half_even_int)
  then have "round_magnitude x = (x / quantum x) * quantum x"
    by (simp only: round_magnitude_def assms)
  also have "\<dots> = x" using q by simp
  finally show ?thesis .
qed

lemma round_double_int_pos:
  assumes "0 < k" and "k \<le> 2 ^ 53"
  shows "round_double (of_int k) = Fin (of_int k)"
proof -
  let ?a = "of_int k :: rat"
  have a1: "?a \<ge> 1" using assms(1) by simp
  have bl: "bitlen k \<ge> 1" using assms(1) by (simp add: bitlen_alt_def)
  have e0: "floor_log2 ?a = bitlen k - 1" using a1 by (simp add: floor_log2_def)
  have "k < 2 ^ nat 54" using assms(2) by simp
  then have bu: "bitlen k \<le> 54" by (simp add: bitlen_le_iff_power)
  have q: "quantum ?a = 2 powi (bitlen k - 1 - 52)" using bl by (simp add: quantum_def e0)
  have "\<exists>z. ?a / 2 powi (bitlen k - 1 - 52) = of_int z"
  proof (cases "bitlen k \<le> 53")
    case True
    then have "(2::rat) powi (bitlen k - 1 - 52) = 1 / 2 ^ nat (53 - bitlen k)"
      using powi_neg [of "bitlen k - 1 - 52"] by simp
    then have "?a / 2 powi (bitlen k - 1 - 52) = of_int (k * 2 ^ nat (53 - bitlen k))"
      by simp
    then show ?thesis ..
  next
    case False
    with bu have b54: "bitlen k = 54" by simp
    from bitlen_bounds [OF assms(1)] b54 have "2 ^ 53 \<le> k" by simp
    with assms(2) have k: "k = 2 ^ 53" by simp
    have "?a / 2 powi (bitlen k - 1 - 52) = of_int (2 ^ 52)"
      by (simp add: b54) (simp add: k)
    then show ?thesis ..
  qed
  then obtain z where "?a / quantum ?a = of_int z"
    by (auto simp only: q)
  then have exact: "round_magnitude ?a = ?a" by (rule round_magnitude_representable)
  have "?a \<le> of_int (2 ^ 53)" using assms(2) by (simp only: of_int_le_iff)
  then have "?a < 2 ^ 1024" by simp
  then show ?thesis using assms(1) by (simp add: round_double_def exact)
qed

lemma round_double_int:
  assumes "\<bar>k\<bar> \<le> 2 ^ 53"
  shows "round_double (of_int k) = Fin (of_int k)"
proof (cases k "0::int" rule: linorder_cases)
  case less
  then have "round_double (of_int (- k)) = Fin (of_int (- k))"
    using assms by (intro round_double_int_pos) simp_all
  then show ?thesis
    using round_double_neg [of "of_int (- k)"] by simp
next
  case equal
  then show ?thesis by (simp add: round_double_def)
next
  case greater
  then show ?thesis using assms by (intro round_double_int_pos) simp_all
qed

lemma round_magnitude_lower:
  assumes "x \<ge> 2 ^ n"
  shows "round_magnitude x \<ge> 2 ^ n"
proof -
  have pos: "x > 0" using assms by (rule less_le_trans [rotated]) simp
  let ?e = "floor_log2 x"
  have "(2::rat) powi (int n) \<le> x" using assms by simp
  also have "x < 2 powi (?e + 1)" using floor_log2_bounds(2) [OF pos] .
  finally have lt: "(2::rat) powi (int n) < 2 powi (?e + 1)" .
  have e: "?e \<ge> int n"
  proof (rule ccontr)
    assume "\<not> ?e \<ge> int n"
    then have "?e + 1 \<le> int n" by simp
    then have "(2::rat) powi (?e + 1) \<le> 2 powi (int n)" by (rule power_int_increasing) simp
    with lt show False by simp
  qed
  then have q: "quantum x = 2 powi (?e - 52)" by (simp add: quantum_def)
  let ?q = "(2::rat) powi (?e - 52)"
  have qpos: "?q > 0" by simp
  have split: "(2::rat) powi ?e = 2 ^ 52 * ?q"
    using power_int_add [of "2::rat" 52 "?e - 52"] by simp
  have "2 ^ 52 * ?q \<le> x" using floor_log2_bounds(1) [OF pos] by (simp only: split)
  then have "of_int (2 ^ 52) \<le> x / ?q" using qpos by (simp add: pos_le_divide_eq)
  then have "2 ^ 52 \<le> round_half_even (x / ?q)" by (rule round_half_even_ge)
  then have "(of_int (2 ^ 52) :: rat) \<le> of_int (round_half_even (x / ?q))"
    by (simp only: of_int_le_iff)
  then have "of_int (2 ^ 52) * ?q \<le> of_int (round_half_even (x / ?q)) * ?q"
    using qpos by (simp only: mult_le_cancel_right_pos)
  moreover have "(2::rat) ^ n \<le> of_int (2 ^ 52) * ?q"
  proof -
    have "(2::rat) powi (int n) \<le> 2 powi ?e" using e by (rule power_int_increasing) simp
    then show ?thesis by (simp add: split)
  qed
  ultimately have "(2::rat) ^ n \<le> of_int (round_half_even (x / ?q)) * ?q" by linarith
  then show ?thesis by (simp add: round_magnitude_def q)
qed


lemma round_double_large:
  assumes "x \<ge> 2 ^ 53"
  shows "round_double x = PInf \<or> (\<exists>r. round_double x = Fin r \<and> r \<ge> 2 ^ 53)"
proof -
  have "x > 0" using assms by (rule less_le_trans [rotated]) simp
  with round_magnitude_lower [OF assms] show ?thesis by (simp add: round_double_def)
qed

lemma round_double_int_ge:
  assumes "c \<le> 2 ^ 53" and "0 < c"
  shows "num_ge (round_double (of_int d)) (Fin (of_int c)) \<longleftrightarrow> d \<ge> c"
proof -
  consider "\<bar>d\<bar> \<le> 2 ^ 53" | "d > 2 ^ 53" | "d < - (2 ^ 53)" by linarith
  then show ?thesis
  proof cases
    case 1
    then show ?thesis by (simp add: round_double_int)
  next
    case 2
    then have "(2::int) ^ 53 \<le> d" by simp
    then have "(of_int (2 ^ 53) :: rat) \<le> of_int d" by (simp only: of_int_le_iff)
    then have "(2::rat) ^ 53 \<le> of_int d" by simp
    from round_double_large [OF this]
    have "num_ge (round_double (of_int d)) (Fin (of_int c))"
    proof
      assume "round_double (rat_of_int d) = PInf"
      then show ?thesis by simp
    next
      assume "\<exists>r. round_double (rat_of_int d) = Fin r \<and> 2 ^ 53 \<le> r"
      then obtain r where r: "round_double (rat_of_int d) = Fin r" "2 ^ 53 \<le> r" by blast
      have "(of_int c :: rat) \<le> of_int (2 ^ 53)" using assms(1) by (simp only: of_int_le_iff)
      with r(2) have "of_int c \<le> r" by simp
      with r(1) show ?thesis by simp
    qed
    moreover have "d \<ge> c" using 2 assms(1) by simp
    ultimately show ?thesis by simp
  next
    case 3
    then have "(2::int) ^ 53 \<le> - d" by simp
    then have "(of_int (2 ^ 53) :: rat) \<le> of_int (- d)" by (simp only: of_int_le_iff)
    then have "(2::rat) ^ 53 \<le> of_int (- d)" by simp
    from round_double_large [OF this]
    have "\<not> num_ge (num_neg (round_double (of_int (- d)))) (Fin (of_int c))"
    proof
      assume "round_double (rat_of_int (- d)) = PInf"
      then show ?thesis by simp
    next
      assume "\<exists>r. round_double (rat_of_int (- d)) = Fin r \<and> 2 ^ 53 \<le> r"
      then obtain r where r: "round_double (rat_of_int (- d)) = Fin r" "2 ^ 53 \<le> r" by blast
      have "(0::rat) < of_int c" using assms(2) by simp
      with r(2) have "- r < of_int c" by simp
      with r(1) show ?thesis by simp
    qed
    then have "\<not> num_ge (round_double (of_int d)) (Fin (of_int c))"
      using round_double_neg [of "of_int (- d)"] by simp
    moreover have "\<not> d \<ge> c" using 3 assms(2) by simp
    ultimately show ?thesis by simp
  qed
qed

lemma round_double_numeral [simp]:
  "(numeral w :: int) \<le> 2 ^ 53 \<Longrightarrow> round_double (numeral w) = Fin (numeral w)"
  using round_double_int [of "numeral w"] by simp

lemma round_double_neg_numeral [simp]:
  "(numeral w :: int) \<le> 2 ^ 53 \<Longrightarrow> round_double (- numeral w) = Fin (- numeral w)"
  using round_double_int [of "- numeral w"] by simp

lemma round_double_0 [simp]: "round_double 0 = Fin 0"
  by (simp add: round_double_def)

lemma round_double_1 [simp]: "round_double 1 = Fin 1"
  using round_double_int [of 1] by simp

lemma floor_log2_unique:
  assumes "2 powi e \<le> x" and "x < 2 powi (e + 1)"
  shows "floor_log2 x = e"
proof -
  have pos: "x > 0" using assms(1) by (rule less_le_trans [rotated]) simp
  let ?f = "floor_log2 x"
  have "(2::rat) powi e < 2 powi (?f + 1)"
    using assms(1) floor_log2_bounds(2) [OF pos] by (rule le_less_trans)
  then have "e < ?f + 1"
    using power_int_increasing [of "?f + 1" e "2::rat"] by (cases "e < ?f + 1") simp_all
  moreover have "(2::rat) powi ?f < 2 powi (e + 1)"
    using floor_log2_bounds(1) [OF pos] assms(2) by (rule le_less_trans)
  then have "?f < e + 1"
    using power_int_increasing [of "e + 1" ?f "2::rat"] by (cases "?f < e + 1") simp_all
  ultimately show ?thesis by simp
qed

lemma round_half_even_tie:
  "y = of_int n + 1 / 2 \<Longrightarrow> round_half_even y = (if even n then n else n + 1)"
proof -
  assume a: "y = of_int n + 1 / 2"
  then have "\<lfloor>y\<rfloor> = n" by (intro floor_unique) simp_all
  with a show ?thesis by (simp add: round_half_even_def)
qed

lemma round_double_exact:
  assumes "2 powi e \<le> x" and "x < 2 powi (e + 1)" and "e \<ge> - 1022"
    and "x / 2 powi (e - 52) = of_int z" and "x < 2 ^ 1024"
  shows "round_double x = Fin x"
proof -
  have pos: "x > 0" using assms(1) by (rule less_le_trans [rotated]) simp
  have "floor_log2 x = e" using assms(1,2) by (rule floor_log2_unique)
  then have "quantum x = 2 powi (e - 52)" using assms(3) by (simp add: quantum_def)
  with assms(4) have "x / quantum x = of_int z" by simp
  then have "round_magnitude x = x" by (rule round_magnitude_representable)
  with pos assms(5) show ?thesis by (simp add: round_double_def)
qed

subsection \<open>The store\<close>

lemma map_of_update_same:
  "map_of (map (\<lambda>(i, d). if i = k then (i, g d) else (i, d)) xs) k = map_option g (map_of xs k)"
  by (induction xs) auto

lemma map_of_update_other:
  "k' \<noteq> k \<Longrightarrow> map_of (map (\<lambda>(i, d). if i = k then (i, g d) else (i, d)) xs) k' = map_of xs k'"
  by (induction xs) auto

lemma doc_get_update_same:
  "doc_get (doc_update db c k u) c k = map_option (\<lambda>d. d ++ u) (doc_get db c k)"
  by (simp add: doc_get_def doc_update_def map_of_update_same)

lemma doc_get_update_other:
  "c' \<noteq> c \<or> k' \<noteq> k \<Longrightarrow> doc_get (doc_update db c k u) c' k' = doc_get db c' k'"
  by (auto simp add: doc_get_def doc_update_def map_of_update_other)

lemma doc_get_add_same:
  "doc_get db c k = None \<Longrightarrow> doc_get (coll_add db c k d) c k = Some d"
  by (simp add: doc_get_def coll_add_def map_add_def[symmetric] map_add_Some_iff)

lemma doc_get_add_old:
  "doc_get db c' k' = Some d' \<Longrightarrow> doc_get (coll_add db c k d) c' k' = Some d'"
  by (auto simp add: doc_get_def coll_add_def map_add_Some_iff)

lemma doc_get_add_other:
  "c' \<noteq> c \<or> k' \<noteq> k \<Longrightarrow> doc_get (coll_add db c k d) c' k' = doc_get db c' k'"
  by (auto simp add: doc_get_def coll_add_def map_add_def split: option.splits)

lemma doc_get_set_merge_same:
  "doc_get (doc_set_merge db c k u) c k =
     Some ((case doc_get db c k of None \<Rightarrow> Map.empty | Some d \<Rightarrow> d) ++ u)"
proof (cases "doc_get db c k")
  case None
  then show ?thesis
    using doc_get_add_same [of db c k u]
    by (simp add: doc_set_merge_def doc_get_def coll_add_def)
next
  case (Some d)
  then show ?thesis
    by (simp add: doc_set_merge_def doc_get_update_same doc_get_def [symmetric])
qed

lemma doc_get_set_merge_other:
  "c' \<noteq> c \<or> k' \<noteq> k \<Longrightarrow> doc_get (doc_set_merge db c k u) c' k' = doc_get db c' k'"
  using doc_get_add_other [of c' c k' k db u]
  by (auto simp add: doc_set_merge_def doc_get_update_other coll_add_def)

subsection \<open>Approving a redemption\<close>

lemma approveRedemption_missing:
  "doc_get db ''redemptions'' i = None \<Longrightarrow> approveRedemption nowIso i db = (None, db)"
  by (simp add: approveRedemption_def)

lemma approveRedemption_approved:
  "doc_get db ''redemptions'' i = Some data \<Longrightarrow> data ''status'' = Some (JStr ''approved'')
   \<Longrightarrow> approveRedemption nowIso i db = (Some (with_id i data), db)"
  by (simp add: approveRedemption_def)

lemma approveRedemption_pending:
  "doc_get db ''redemptions'' i = Some data \<Longrightarrow> data ''status'' \<noteq> Some (JStr ''approved'')
   \<Longrightarrow> approveRedemption nowIso i db =
         (Some (with_id i (data ++ [''status'' \<mapsto> JStr ''approved'', ''approvedAt'' \<mapsto> JStr nowIso])),
          doc_update db ''redemptions'' i
            [''status'' \<mapsto> JStr ''approved'', ''approvedAt'' \<mapsto> JStr nowIso])"
  by (simp add: approveRedemption_def Let_def doc_get_update_same snapshot_object_def)

lemma approveRedemption_twice:
  "approveRedemption t2 i (snd (approveRedemption t1 i db)) = approveRedemption t1 i db"
proof (cases "doc_get db ''redemptions'' i")
  case None
  then show ?thesis by (simp add: approveRedemption_missing)
next
  case (Some data)
  show ?thesis
  proof (cases "data ''status'' = Some (JStr ''approved'')")
    case True
    with Some show ?thesis by (simp add: approveRedemption_approved)
  next
    case False
    let ?upd = "[''status'' \<mapsto> JStr ''approved'', ''approvedAt'' \<mapsto> JStr t1]"
    let ?db' = "doc_update db ''redemptions'' i ?upd"
    have first: "approveRedemption t1 i db = (Some (with_id i (data ++ ?upd)), ?db')"
      using Some False by (rule approveRedemption_pending)
    have stored: "doc_get ?db' ''redemptions'' i = Some (data ++ ?upd)"
      using Some by (simp add: doc_get_update_same)
    have "approveRedemption t2 i ?db' = (Some (with_id i (data ++ ?upd)), ?db')"
      using stored by (rule approveRedemption_approved) simp
    with first show ?thesis by simp
  qed
qed

lemma approveRedemption_keeps_approved:
  assumes "doc_get db ''redemptions'' j = Some data" "data ''status'' = Some (JStr ''approved'')"
  shows "doc_get (snd (approveRedemption nowIso i db)) ''redemptions'' j = Some data"
proof (cases "i = j")
  case True
  with assms show ?thesis by (simp add: approveRedemption_approved)
next
  case False
  then show ?thesis
    using assms(1)
    by (cases "doc_get db ''redemptions'' i")
       (auto simp add: approveRedemption_def Let_def doc_get_update_other)
qed

lemma approveRedemption_frame:
  "c \<noteq> ''redemptions'' \<or> k \<noteq> i \<Longrightarrow>
   doc_get (snd (approveRedemption nowIso i db)) c k = doc_get db c k"
  by (cases "doc_get db ''redemptions'' i")
     (auto simp add: approveRedemption_def Let_def doc_get_update_other)

subsection \<open>Claiming an order\<close>

lemma doc_get_member:
  "unique_keys db c \<Longrightarrow> (k, d) \<in> set (db c) \<Longrightarrow> doc_get db c k = Some d"
  by (simp add: unique_keys_def doc_get_def)

lemma where_eq_subset: "set (where_eq f v docs) \<subseteq> set docs"
  by (auto simp add: where_eq_def)

lemma claim_docs_frame:
  "(\<And>d. (j, d) \<in> set docs \<Longrightarrow> truthy (d ''userEmail'')) \<Longrightarrow>
   doc_get (snd (claim_docs email docs u db)) c j = doc_get db c j"
proof (induction docs arbitrary: u db)
  case Nil
  then show ?case by simp
next
  case (Cons p docs)
  obtain i d where p: "p = (i, d)" by (cases p)
  let ?db' = "if \<not> truthy (d ''userEmail'')
              then doc_update db ''orders'' i (Map.empty(''userEmail'' := email)) else db"
  have step: "doc_get ?db' c j = doc_get db c j"
  proof (cases "truthy (d ''userEmail'')")
    case True
    then show ?thesis by simp
  next
    case False
    with Cons.prems [of d] p have "i \<noteq> j" by auto
    then show ?thesis by (simp add: doc_get_update_other)
  qed
  have "doc_get (snd (claim_docs email docs (Some (snapshot_object i (doc_get ?db' ''orders'' i))) ?db')) c j
          = doc_get ?db' c j"
    using Cons.prems by (intro Cons.IH) auto
  with step p show ?case by (simp add: Let_def)
qed

lemma claim_docs_all_claimed:
  "(\<And>i d. (i, d) \<in> set docs \<Longrightarrow> truthy (d ''userEmail'')) \<Longrightarrow>
   snd (claim_docs email docs u db) = db"
proof (induction docs arbitrary: u)
  case Nil
  then show ?case by simp
next
  case (Cons p docs)
  obtain i d where p: "p = (i, d)" by (cases p)
  have "truthy (d ''userEmail'')" using Cons.prems [of i d] p by simp
  moreover have "snd (claim_docs email docs (Some (snapshot_object i (doc_get db ''orders'' i))) db) = db"
    using Cons.prems by (intro Cons.IH) auto
  ultimately show ?case using p by (simp add: Let_def)
qed

lemma claim_docs_result:
  "docs \<noteq> [] \<Longrightarrow>
   fst (claim_docs email docs u db)
     = Some (snapshot_object (fst (last docs))
              (doc_get (snd (claim_docs email docs u db)) ''orders'' (fst (last docs))))"
proof (induction docs arbitrary: u db)
  case Nil
  then show ?case by simp
next
  case (Cons p docs)
  obtain i d where p: "p = (i, d)" by (cases p)
  show ?case
  proof (cases "docs = []")
    case True
    with p show ?thesis by (simp add: Let_def)
  next
    case False
    with Cons.IH p show ?thesis by (simp add: Let_def)
  qed
qed

subsection \<open>Upserting a user\<close>

lemma map_add_absorb: "m ++ (m ++ n) = m ++ n"
  by (rule ext) (simp add: map_add_def split: option.splits)

lemma createUser_existing:
  assumes "data ''email'' = Some (JStr e)" and "e \<noteq> []"
    and "doc_get db ''users'' e = Some existing"
  shows "\<not> isl (createUser now data db)"
    and "fst (projr (createUser now data db))
           = with_id e (existing ++ data(''email'' := None) ++ [''updatedAt'' \<mapsto> JStr now])"
    and "doc_get (snd (projr (createUser now data db))) ''users'' e
           = Some (existing ++ data(''email'' := None) ++ [''updatedAt'' \<mapsto> JStr now])"
  using assms
  by (simp_all add: createUser_def Let_def doc_get_set_merge_same snapshot_object_def
      map_add_absorb map_add_assoc [symmetric] del: map_add_assoc)

lemma createUser_keeps_unnamed_fields:
  assumes "data ''email'' = Some (JStr e)" and "e \<noteq> []"
    and "doc_get db ''users'' e = Some existing"
    and "data f = None" and "f \<noteq> ''updatedAt''"
  shows "stored_field (snd (projr (createUser now data db))) ''users'' e f = existing f"
  using createUser_existing(3) [of data e db existing now] assms
  by (simp add: stored_field_def map_add_def split: option.splits)

lemma createUser_refreshes_updatedAt:
  assumes "data ''email'' = Some (JStr e)" and "e \<noteq> []"
    and "doc_get db ''users'' e = Some existing"
  shows "stored_field (snd (projr (createUser now data db))) ''users'' e ''updatedAt''
           = Some (JStr now)"
  using createUser_existing(3) [of data e db existing now] assms
  by (simp add: stored_field_def)

subsection \<open>The loops of the dashboard\<close>

lemma or_zero_quantity:
  "quantity_field v \<Longrightarrow> or_zero v = Some (JNum (grams_of v))"
  by (auto simp add: quantity_field_def or_zero_def js_or_def grams_of_def
      split: option.splits jsval.splits jsnum.splits)

lemma js_add_numbers:
  "js_add rt (Some (JNum a)) (Some (JNum b)) = JNum (num_add a b)"
  by (simp add: js_add_def)

lemma with_id_field: "f \<noteq> ''id'' \<Longrightarrow> with_id i d f = d f"
  by (simp add: with_id_def map_add_def split: option.splits)

lemma vested_with_id: "vested rt now (with_id i d) = vested rt now d"
  by (simp add: vested_def createdTime_def with_id_field)

lemma order_loop_quantities:
  "\<forall>order \<in> set os. quantity_field (order ''rewardGrams'') \<Longrightarrow>
   fst (order_loop rt now price os (JNum a, tv, JNum b))
     = JNum (foldl num_add a (map (\<lambda>order. grams_of (order ''rewardGrams'')) os)) \<and>
   snd (snd (order_loop rt now price os (JNum a, tv, JNum b)))
     = JNum (foldl num_add b (map (\<lambda>order. grams_of (order ''rewardGrams''))
                               (filter (vested rt now) os)))"
proof (induction os arbitrary: a tv b)
  case Nil
  then show ?case by simp
next
  case (Cons order os)
  have q: "or_zero (order ''rewardGrams'') = Some (JNum (grams_of (order ''rewardGrams'')))"
    using Cons.prems by (intro or_zero_quantity) simp
  have rest: "\<forall>order \<in> set os. quantity_field (order ''rewardGrams'')"
    using Cons.prems by simp
  show ?case
  proof (cases "vested rt now order")
    case True
    then show ?thesis
      using Cons.IH [OF rest] by (simp add: q js_add_numbers)
  next
    case False
    then show ?thesis
      using Cons.IH [OF rest] by (simp add: q js_add_numbers)
  qed
qed

lemma redemption_loop_quantities:
  "\<forall>(i, d) \<in> set docs. quantity_field (d ''grams'') \<Longrightarrow>
   redemption_loop rt docs (JNum a)
     = JNum (foldl num_add a (map (\<lambda>(i, d). grams_of (d ''grams'')) docs))"
proof (induction docs arbitrary: a)
  case Nil
  then show ?case by simp
next
  case (Cons p docs)
  obtain i d where p: "p = (i, d)" by (cases p)
  have q: "or_zero (d ''grams'') = Some (JNum (grams_of (d ''grams'')))"
    using Cons.prems p by (intro or_zero_quantity) simp
  have rest: "\<forall>(i, d) \<in> set docs. quantity_field (d ''grams'')"
    using Cons.prems by simp
  show ?case
    using Cons.IH [OF rest] p by (simp add: q js_add_numbers)
qed

lemma outstanding_query:
  "where_in ''status'' [JStr ''pending'', JStr ''approved'']
     (where_eq ''email'' (Some email) (db ''redemptions''))
   = outstandingRedemptions email db"
  by (auto simp add: where_in_def where_eq_def outstandingRedemptions_def
      intro!: filter_cong split: option.splits)

lemma vested_orders_query:
  "map (\<lambda>order. grams_of (order ''rewardGrams''))
     (filter (vested rt now)
        (snapshot_objects (where_eq ''userEmail'' (Some email) (db ''orders''))))
   = map (\<lambda>(i, d). grams_of (d ''rewardGrams''))
       (filter (\<lambda>(i, d). d ''userEmail'' = Some email \<and> vested rt now d) (db ''orders''))"
proof -
  have "map (\<lambda>order. grams_of (order ''rewardGrams''))
          (filter (vested rt now) (snapshot_objects (filter P docs)))
        = map (\<lambda>(i, d). grams_of (d ''rewardGrams''))
          (filter (\<lambda>(i, d). P (i, d) \<and> vested rt now d) docs)" for P docs
    by (induction docs) (auto simp add: snapshot_objects_def vested_with_id with_id_field)
  from this [of "\<lambda>(i, d). d ''userEmail'' = Some email" "db ''orders''"]
  show ?thesis
    by (simp add: where_eq_def case_prod_unfold)
qed

lemma Math_max_zero: "Math_max (Fin x) (Fin 0) = Fin (max x 0)"
  by (simp add: Math_max_def max_def)

lemma Math_max_not_negative: "\<not> num_negative (Math_max n (Fin 0))"
  by (cases n) (simp_all add: Math_max_def num_negative_def)

lemma redeemableGrams_eq:
  "redeemableGrams (getDashboardData rt now email defaultPrice db)
   = Math_max
       (js_sub rt
          (Some (snd (snd (order_loop rt now (getGoldPrice defaultPrice db)
                   (snapshot_objects (where_eq ''userEmail'' email (db ''orders'')))
                   (JNum (Fin 0), Fin 0, JNum (Fin 0))))))
          (Some (redemption_loop rt
                   (where_in ''status'' [JStr ''pending'', JStr ''approved'']
                      (where_eq ''email'' email (db ''redemptions'')))
                   (JNum (Fin 0)))))
       (Fin 0)"
  by (simp add: getDashboardData_def Let_def case_prod_unfold)

text \<open>The balance of the dashboard, in the quantities of the specification.\<close>

lemma redeemableGrams_quantities:
  assumes orders: "\<forall>(i, d) \<in> set (db ''orders'').
                  d ''userEmail'' = Some email \<longrightarrow> quantity_field (d ''rewardGrams'')"
    and reds: "\<forall>(i, d) \<in> set (outstandingRedemptions email db). quantity_field (d ''grams'')"
  shows "redeemableGrams (getDashboardData rt now (Some email) defaultPrice db)
       = Math_max (num_sub (vestedGramsSum rt now email db)
                           (sumOfOutstandingRedemptionGrams email db)) (Fin 0)"
proof -
  let ?os = "snapshot_objects (where_eq ''userEmail'' (Some email) (db ''orders''))"
  have "\<forall>order \<in> set ?os. quantity_field (order ''rewardGrams'')"
    using orders by (auto simp add: snapshot_objects_def where_eq_def with_id_field)
  then have "snd (snd (order_loop rt now (getGoldPrice defaultPrice db) ?os
                (JNum (Fin 0), Fin 0, JNum (Fin 0))))
             = JNum (vestedGramsSum rt now email db)"
    using order_loop_quantities [of ?os rt now "getGoldPrice defaultPrice db" "Fin 0" "Fin 0" "Fin 0"]
    by (simp add: vested_orders_query vestedGramsSum_def double_sum_def)
  moreover have "redemption_loop rt (outstandingRedemptions email db) (JNum (Fin 0))
             = JNum (sumOfOutstandingRedemptionGrams email db)"
    using redemption_loop_quantities [OF reds, of rt "Fin 0"]
    by (simp add: sumOfOutstandingRedemptionGrams_def double_sum_def)
  ultimately show ?thesis
    by (simp add: redeemableGrams_eq outstanding_query js_sub_def)
qed

text \<open>The test of the loop against the vesting rule of the specification.\<close>

lemma vested_iso:
  assumes "order ''createdAt'' = Some (JStr c)" and "c \<noteq> []"
    and "dateParse rt c = Fin (of_int t)"
  shows "vested rt now order \<longleftrightarrow> now - t \<ge> 30 * 24 * 60 * 60 * 1000"
proof -
  have "vested rt now order
          \<longleftrightarrow> num_ge (round_double (of_int (now - t))) (Fin (of_int 2592000000))"
    using assms by (simp add: vested_def createdTime_def num_sub_def thirtyDays_def)
  also have "\<dots> \<longleftrightarrow> now - t \<ge> 2592000000"
    by (rule round_double_int_ge) simp_all
  finally show ?thesis by simp
qed

lemma vested_missing:
  "\<not> truthy (order ''createdAt'') \<Longrightarrow> \<not> vested rt now order"
  by (simp add: vested_def createdTime_def num_sub_def thirtyDays_def)

lemma vested_earnedThirtyDaysAgo:
  assumes "iso_createdAt rt order"
  shows "vested rt now order = earnedThirtyDaysAgo rt now order"
proof (cases "order ''createdAt''")
  case None
  then show ?thesis by (simp add: vested_missing earnedThirtyDaysAgo_def)
next
  case (Some v)
  with assms obtain c where c: "order ''createdAt'' = Some (JStr c)"
    by (cases v) (simp_all add: iso_createdAt_def)
  show ?thesis
  proof (cases "c = []")
    case True
    with c show ?thesis by (simp add: vested_missing earnedThirtyDaysAgo_def)
  next
    case False
    show ?thesis
    proof (cases "dateParse rt c")
      case (Fin t)
      with assms c have t: "t = of_int \<lfloor>t\<rfloor>" by (simp add: iso_createdAt_def)
      then have p: "dateParse rt c = Fin (of_int \<lfloor>t\<rfloor>)" using Fin by simp
      have "earnedThirtyDaysAgo rt now order
              \<longleftrightarrow> (of_int now :: rat) - of_int \<lfloor>t\<rfloor> \<ge> 2592000000"
        using c False Fin t by (simp add: earnedThirtyDaysAgo_def)
      also have "\<dots> \<longleftrightarrow> (of_int 2592000000 :: rat) \<le> of_int (now - \<lfloor>t\<rfloor>)"
        by simp
      also have "\<dots> \<longleftrightarrow> 2592000000 \<le> now - \<lfloor>t\<rfloor>"
        by (simp only: of_int_le_iff)
      finally show ?thesis
        using vested_iso [of order c rt "\<lfloor>t\<rfloor>" now] c False p by simp
    next
      case PInf
      with assms c show ?thesis by (simp add: iso_createdAt_def)
    next
      case NInf
      with assms c show ?thesis by (simp add: iso_createdAt_def)
    next
      case NaN
      with c False show ?thesis
        by (simp add: vested_def createdTime_def num_sub_def earnedThirtyDaysAgo_def)
    qed
  qed
qed

subsection \<open>Worked values\<close>

lemma radix_digits_last: "n < b \<or> b < 2 \<Longrightarrow> radix_digits b n = [digit_chars ! n]"
  by (simp add: radix_digits.simps)

lemma radix_digits_step:
  "\<not> (n < b \<or> b < 2) \<Longrightarrow>
   radix_digits b n = radix_digits b (n div b) @ [digit_chars ! (n mod b)]"
  by (subst radix_digits.simps) simp

lemma toFixed_250: "toFixed rt (Fin 250) 2 = ''250.00''"
proof -
  have "\<lfloor>(50001 :: rat) / 2\<rfloor> = 25000"
    by (rule floor_unique) simp_all
  then have scaled: "nat \<lfloor>\<bar>250 :: rat\<bar> * 10 ^ 2 + 1 / 2\<rfloor> = 25000"
    by simp
  have digits: "radix_digits 10 25000 = ''25000''"
    by (simp add: radix_digits_last radix_digits_step digit_chars_def)
  show ?thesis
    unfolding toFixed_def jsnum.case Let_def scaled digits by simp
qed

lemma parseFloat_250: "parseFloat (Some (JStr ''250.00'')) = Fin 250"
  by (simp add: parseFloat_string_def is_space_def is_digit_def decimal_val_def digit_val_def
      exponent_part_def pow10_def Let_def)

text \<open>
  In doubles 0.1 + 0.2 is 0.30000000000000004, and less the double 0.3 it leaves
  \<open>2^-54\<close>.
\<close>

lemma tenth_plus_fifth:
  "num_add (Fin (3602879701896397 / 36028797018963968)) (Fin (3602879701896397 / 18014398509481984))
     = Fin (5404319552844596 / 18014398509481984)"
proof -
  let ?x = "10808639105689191 / 36028797018963968 :: rat"
  have e: "floor_log2 ?x = - 2"
    by (rule floor_log2_unique) (simp_all add: power_int_minus)
  have q: "quantum ?x = 1 / 18014398509481984"
    by (simp add: quantum_def e power_int_minus)
  have "?x / quantum ?x = of_int 5404319552844595 + 1 / 2"
    by (simp add: q)
  from round_half_even_tie [OF this]
  have "round_half_even (?x / quantum ?x) = 5404319552844596"
    by simp
  then have "round_magnitude ?x = 5404319552844596 / 18014398509481984"
    unfolding round_magnitude_def q by simp
  then have "round_double ?x = Fin (5404319552844596 / 18014398509481984)"
    unfolding round_double_def by simp
  moreover have "(3602879701896397 / 36028797018963968 + 3602879701896397 / 18014398509481984 :: rat)
      = ?x" by simp
  ultimately show ?thesis by (simp only: num_add.simps)
qed

lemma zero_plus_tenth:
  "num_add (Fin 0) (Fin (3602879701896397 / 36028797018963968))
     = Fin (3602879701896397 / 36028797018963968)"
proof -
  have "round_double (3602879701896397 / 36028797018963968)
          = Fin (3602879701896397 / 36028797018963968)"
    by (rule round_double_exact [where e = "- 4" and z = 7205759403792794])
       (simp_all add: power_int_minus)
  then show ?thesis by simp
qed

lemma zero_plus_three_tenths:
  "num_add (Fin 0) (Fin (5404319552844595 / 18014398509481984))
     = Fin (5404319552844595 / 18014398509481984)"
proof -
  have "round_double (5404319552844595 / 18014398509481984)
          = Fin (5404319552844595 / 18014398509481984)"
    by (rule round_double_exact [where e = "- 2" and z = 5404319552844595])
       (simp_all add: power_int_minus)
  then show ?thesis by simp
qed

lemma sum_less_three_tenths:
  "num_sub (Fin (5404319552844596 / 18014398509481984))
           (Fin (5404319552844595 / 18014398509481984))
     = Fin (1 / 18014398509481984)"
proof -
  have "round_double (1 / 18014398509481984) = Fin (1 / 18014398509481984)"
    by (rule round_double_exact [where e = "- 54" and z = 4503599627370496])
       (simp_all add: power_int_minus)
  moreover have "(5404319552844596 / 18014398509481984 + - (5404319552844595 / 18014398509481984) :: rat)
      = 1 / 18014398509481984" by simp
  ultimately show ?thesis by (simp only: num_sub_def num_neg.simps num_add.simps)
qed

lemma tenth_plus_fifth_reduced:
  "num_add (Fin (3602879701896397 / 36028797018963968)) (Fin (3602879701896397 / 18014398509481984))
     = Fin (1351079888211149 / 4503599627370496)"
  using tenth_plus_fifth by simp

lemma sum_less_three_tenths_reduced:
  "num_sub (Fin (1351079888211149 / 4503599627370496))
           (Fin (5404319552844595 / 18014398509481984))
     = Fin (1 / 18014398509481984)"
  using sum_less_three_tenths by simp






lemma parseFloat_1e23:
  "parseFloat (Some (JStr ''1e23'')) = Fin 99999999999999991611392"
proof -
  let ?x = "100000000000000000000000 :: rat"
  have p: "parseFloat (Some (JStr ''1e23'')) = round_double ?x"
    by (simp add: parseFloat_string_def is_space_def is_digit_def decimal_val_def digit_val_def
        exponent_part_def pow10_def Let_def del: round_double_numeral)
  have e: "floor_log2 ?x = 76"
    by (rule floor_log2_unique) simp_all
  have q: "quantum ?x = 16777216"
    by (simp add: quantum_def e)
  have "?x / quantum ?x = of_int 5960464477539062 + 1 / 2"
    by (simp add: q)
  from round_half_even_tie [OF this]
  have "round_half_even (?x / quantum ?x) = 5960464477539062"
    by simp
  then have "round_magnitude ?x = 99999999999999991611392"
    unfolding round_magnitude_def q by simp
  then have "round_double ?x = Fin 99999999999999991611392"
    unfolding round_double_def by simp
  with p show ?thesis by simp
qed

subsection \<open>Claims\<close>

text \<open>
  Claim C1. For every user email, the dashboard of \<open>getDashboardData\<close> has
  \<open>redeemableGrams = max(vestedGramsSum - sumOfOutstandingRedemptionGrams, 0)\<close>, the
  outstanding sum ranging over the user's redemptions whose status is pending or
  approved, when the quantities involved (\<open>rewardGrams\<close> of the user's orders, \<open>grams\<close> of
  those redemptions) are numbers or missing. The sums and the difference are those of
  the program's numbers: doubles, added in the order of the query, every operation
  rounded; where the difference is a finite number \<open>x\<close>, the result is \<open>max x 0\<close>.
  Whatever the documents hold, \<open>redeemableGrams\<close> is never negative. The instances
  below are the scenario of the specification (10 vested grams, a pending redemption of
  2 and an approved one of 3 give 5) and one where rounding shows (orders of 0.1 and
  0.2 against a pending redemption of 0.3 leave \<open>2^-54\<close>).
\<close>

theorem redeemableGrams_balance:
  "((\<forall>(i, d) \<in> set (db ''orders'').
        d ''userEmail'' = Some email \<longrightarrow> quantity_field (d ''rewardGrams'')) \<and>
    (\<forall>(i, d) \<in> set (outstandingRedemptions email db). quantity_field (d ''grams'')) \<longrightarrow>
      redeemableGrams (getDashboardData rt now (Some email) defaultPrice db)
        = Math_max (num_sub (vestedGramsSum rt now email db)
                            (sumOfOutstandingRedemptionGrams email db)) (Fin 0) \<and>
      (\<forall>x. num_sub (vestedGramsSum rt now email db)
                    (sumOfOutstandingRedemptionGrams email db) = Fin x \<longrightarrow>
           redeemableGrams (getDashboardData rt now (Some email) defaultPrice db)
             = Fin (max x 0))) \<and>
   \<not> num_negative (redeemableGrams (getDashboardData rt now anyEmail defaultPrice db))"
proof -
  have balance:
    "redeemableGrams (getDashboardData rt now (Some email) defaultPrice db)
       = Math_max (num_sub (vestedGramsSum rt now email db)
                           (sumOfOutstandingRedemptionGrams email db)) (Fin 0)"
    if "\<forall>(i, d) \<in> set (db ''orders'').
          d ''userEmail'' = Some email \<longrightarrow> quantity_field (d ''rewardGrams'')"
      and "\<forall>(i, d) \<in> set (outstandingRedemptions email db). quantity_field (d ''grams'')"
    using that by (rule redeemableGrams_quantities)
  have "\<not> num_negative (redeemableGrams (getDashboardData rt now anyEmail defaultPrice db))"
    by (simp add: redeemableGrams_eq Math_max_not_negative)
  with balance show ?thesis by (auto simp add: Math_max_zero)
qed

theorem redeemableGrams_balance_witness:
  "quantity_field (Some (JNum (Fin 10))) \<and>
   redeemableGrams
     (getDashboardData
        \<lparr>dateParse = (\<lambda>s. Fin 0), numberToString = (\<lambda>n. []), stringToNumber = (\<lambda>s. NaN)\<rparr>
        2592000000 (Some (JStr ''a@b.com'')) (Some (JNum (Fin 60)))
        (empty_store
          (''orders'' :=
             [(''o1'', [''userEmail'' \<mapsto> JStr ''a@b.com'', ''rewardGrams'' \<mapsto> JNum (Fin 10),
                        ''createdAt'' \<mapsto> JStr ''1970-01-01T00:00:00.000Z''])],
           ''redemptions'' :=
             [(''r1'', [''email'' \<mapsto> JStr ''a@b.com'', ''grams'' \<mapsto> JNum (Fin 2),
                        ''status'' \<mapsto> JStr ''pending'']),
              (''r2'', [''email'' \<mapsto> JStr ''a@b.com'', ''grams'' \<mapsto> JNum (Fin 3),
                        ''status'' \<mapsto> JStr ''approved''])])))
     = Fin 5 \<and>
   redeemableGrams
     (getDashboardData
        \<lparr>dateParse = (\<lambda>s. Fin 0), numberToString = (\<lambda>n. []), stringToNumber = (\<lambda>s. NaN)\<rparr>
        2592000000 (Some (JStr ''a@b.com'')) (Some (JNum (Fin 60)))
        (empty_store
          (''orders'' :=
             [(''o1'', [''userEmail'' \<mapsto> JStr ''a@b.com'',
                        ''rewardGrams'' \<mapsto> JNum (Fin (3602879701896397 / 36028797018963968)),
                        ''createdAt'' \<mapsto> JStr ''1970-01-01T00:00:00.000Z'']),
              (''o2'', [''userEmail'' \<mapsto> JStr ''a@b.com'',
                        ''rewardGrams'' \<mapsto> JNum (Fin (3602879701896397 / 18014398509481984)),
                        ''createdAt'' \<mapsto> JStr ''1970-01-01T00:00:00.000Z''])],
           ''redemptions'' :=
             [(''r1'', [''email'' \<mapsto> JStr ''a@b.com'',
                        ''grams'' \<mapsto> JNum (Fin (5404319552844595 / 18014398509481984)),
                        ''status'' \<mapsto> JStr ''pending''])])))
     = Fin (1 / 18014398509481984)"
proof -
  have scenario:
    "redeemableGrams
       (getDashboardData
          \<lparr>dateParse = (\<lambda>s. Fin 0), numberToString = (\<lambda>n. []), stringToNumber = (\<lambda>s. NaN)\<rparr>
          2592000000 (Some (JStr ''a@b.com'')) (Some (JNum (Fin 60)))
          (empty_store
            (''orders'' :=
               [(''o1'', [''userEmail'' \<mapsto> JStr ''a@b.com'', ''rewardGrams'' \<mapsto> JNum (Fin 10),
                          ''createdAt'' \<mapsto> JStr ''1970-01-01T00:00:00.000Z''])],
             ''redemptions'' :=
               [(''r1'', [''email'' \<mapsto> JStr ''a@b.com'', ''grams'' \<mapsto> JNum (Fin 2),
                          ''status'' \<mapsto> JStr ''pending'']),
                (''r2'', [''email'' \<mapsto> JStr ''a@b.com'', ''grams'' \<mapsto> JNum (Fin 3),
                          ''status'' \<mapsto> JStr ''approved''])])))
       = Fin 5"
    using redeemableGrams_balance
      [of "empty_store
            (''orders'' :=
               [(''o1'', [''userEmail'' \<mapsto> JStr ''a@b.com'', ''rewardGrams'' \<mapsto> JNum (Fin 10),
                          ''createdAt'' \<mapsto> JStr ''1970-01-01T00:00:00.000Z''])],
             ''redemptions'' :=
               [(''r1'', [''email'' \<mapsto> JStr ''a@b.com'', ''grams'' \<mapsto> JNum (Fin 2),
                          ''status'' \<mapsto> JStr ''pending'']),
                (''r2'', [''email'' \<mapsto> JStr ''a@b.com'', ''grams'' \<mapsto> JNum (Fin 3),
                          ''status'' \<mapsto> JStr ''approved''])])"
          "JStr ''a@b.com''"
          "\<lparr>dateParse = (\<lambda>s. Fin 0), numberToString = (\<lambda>n. []), stringToNumber = (\<lambda>s. NaN)\<rparr>"
          2592000000 "Some (JNum (Fin 60))"]
    by (simp add: quantity_field_def outstandingRedemptions_def vestedGramsSum_def
        sumOfOutstandingRedemptionGrams_def double_sum_def grams_of_def vested_def
        createdTime_def num_sub_def thirtyDays_def Math_max_def)
  let ?rt = "\<lparr>dateParse = (\<lambda>s. Fin 0), numberToString = (\<lambda>n. []), stringToNumber = (\<lambda>s. NaN)\<rparr>"
  let ?o1 = "[''userEmail'' \<mapsto> JStr ''a@b.com'',
              ''rewardGrams'' \<mapsto> JNum (Fin (3602879701896397 / 36028797018963968)),
              ''createdAt'' \<mapsto> JStr ''1970-01-01T00:00:00.000Z'']"
  let ?o2 = "[''userEmail'' \<mapsto> JStr ''a@b.com'',
              ''rewardGrams'' \<mapsto> JNum (Fin (3602879701896397 / 18014398509481984)),
              ''createdAt'' \<mapsto> JStr ''1970-01-01T00:00:00.000Z'']"
  let ?r1 = "[''email'' \<mapsto> JStr ''a@b.com'',
              ''grams'' \<mapsto> JNum (Fin (5404319552844595 / 18014398509481984)),
              ''status'' \<mapsto> JStr ''pending'']"
  let ?db = "empty_store(''orders'' := [(''o1'', ?o1), (''o2'', ?o2)],
                         ''redemptions'' := [(''r1'', ?r1)])"
  have v1: "vested ?rt 2592000000 ?o1" and v2: "vested ?rt 2592000000 ?o2"
    by (simp_all add: vested_def createdTime_def num_sub_def thirtyDays_def)
  have V: "vestedGramsSum ?rt 2592000000 (JStr ''a@b.com'') ?db
             = Fin (1351079888211149 / 4503599627370496)"
    unfolding vestedGramsSum_def double_sum_def
    using v1 v2
    by (simp add: grams_of_def zero_plus_tenth tenth_plus_fifth_reduced del: num_add.simps)
  have O: "sumOfOutstandingRedemptionGrams (JStr ''a@b.com'') ?db
             = Fin (5404319552844595 / 18014398509481984)"
    unfolding sumOfOutstandingRedemptionGrams_def double_sum_def outstandingRedemptions_def
    by (simp add: grams_of_def zero_plus_three_tenths del: num_add.simps)
  have rounding:
    "redeemableGrams
       (getDashboardData
          \<lparr>dateParse = (\<lambda>s. Fin 0), numberToString = (\<lambda>n. []), stringToNumber = (\<lambda>s. NaN)\<rparr>
          2592000000 (Some (JStr ''a@b.com'')) (Some (JNum (Fin 60)))
          (empty_store
            (''orders'' :=
               [(''o1'', [''userEmail'' \<mapsto> JStr ''a@b.com'',
                          ''rewardGrams'' \<mapsto> JNum (Fin (3602879701896397 / 36028797018963968)),
                          ''createdAt'' \<mapsto> JStr ''1970-01-01T00:00:00.000Z'']),
                (''o2'', [''userEmail'' \<mapsto> JStr ''a@b.com'',
                          ''rewardGrams'' \<mapsto> JNum (Fin (3602879701896397 / 18014398509481984)),
                          ''createdAt'' \<mapsto> JStr ''1970-01-01T00:00:00.000Z''])],
             ''redemptions'' :=
               [(''r1'', [''email'' \<mapsto> JStr ''a@b.com'',
                          ''grams'' \<mapsto> JNum (Fin (5404319552844595 / 18014398509481984)),
                          ''status'' \<mapsto> JStr ''pending''])])))
       = Fin (1 / 18014398509481984)"
    using redeemableGrams_balance
      [of ?db "JStr ''a@b.com''" ?rt 2592000000 "Some (JNum (Fin 60))"]
    unfolding V O sum_less_three_tenths_reduced
    by (simp add: quantity_field_def outstandingRedemptions_def Math_max_def)
  show ?thesis
    using scenario rounding by (simp add: quantity_field_def)
qed

text \<open>
  Claim C2. The vesting rule of \<open>getDashboardData\<close>. When the \<open>createdAt\<close> of the
  user's orders is a date string or missing and the quantities are numbers, the grams
  that the dashboard counts as vested are those of the user's orders with
  \<open>now - createdAt >= 30 * 24 * 60 * 60 * 1000\<close> milliseconds, and of no other order. For
  an order whose \<open>createdAt\<close> parses to the time \<open>t\<close>, the test of the code holds if and
  only if \<open>now - t\<close> is at least 30 days, for all times: it holds when \<open>t\<close> is exactly 30
  days before \<open>now\<close> and fails one millisecond later. An order without \<open>createdAt\<close> is
  taken as earned now and is not vested. The instances below are dashboards of one
  order of 5 grams: exactly 30 days old (5 redeemable), one millisecond younger (0), and
  without \<open>createdAt\<close> (0).
\<close>

theorem vesting_rule:
  "((\<forall>(i, d) \<in> set (db ''orders'').
        d ''userEmail'' = Some email \<longrightarrow>
          quantity_field (d ''rewardGrams'') \<and> iso_createdAt rt d) \<and>
    (\<forall>(i, d) \<in> set (outstandingRedemptions email db). quantity_field (d ''grams'')) \<longrightarrow>
      redeemableGrams (getDashboardData rt now (Some email) defaultPrice db)
        = Math_max
            (num_sub
               (double_sum (map (\<lambda>(i, d). grams_of (d ''rewardGrams''))
                  (filter (\<lambda>(i, d). d ''userEmail'' = Some email \<and> earnedThirtyDaysAgo rt now d)
                     (db ''orders''))))
               (sumOfOutstandingRedemptionGrams email db))
            (Fin 0)) \<and>
   (\<forall>c t. order ''createdAt'' = Some (JStr c) \<and> c \<noteq> [] \<and> dateParse rt c = Fin (of_int t) \<longrightarrow>
      (vested rt now order \<longleftrightarrow> now - t \<ge> 30 * 24 * 60 * 60 * 1000) \<and>
      (earnedThirtyDaysAgo rt now order \<longleftrightarrow> now - t \<ge> 30 * 24 * 60 * 60 * 1000) \<and>
      (t = now - 30 * 24 * 60 * 60 * 1000 \<longrightarrow> vested rt now order) \<and>
      (t = now - 30 * 24 * 60 * 60 * 1000 + 1 \<longrightarrow> \<not> vested rt now order)) \<and>
   (order ''createdAt'' = None \<longrightarrow>
      createdTime rt now order = Fin (of_int now) \<and> \<not> vested rt now order \<and>
      \<not> earnedThirtyDaysAgo rt now order)"
proof -
  have dashboard:
    "redeemableGrams (getDashboardData rt now (Some email) defaultPrice db)
        = Math_max
            (num_sub
               (double_sum (map (\<lambda>(i, d). grams_of (d ''rewardGrams''))
                  (filter (\<lambda>(i, d). d ''userEmail'' = Some email \<and> earnedThirtyDaysAgo rt now d)
                     (db ''orders''))))
               (sumOfOutstandingRedemptionGrams email db))
            (Fin 0)"
    if orders: "\<forall>(i, d) \<in> set (db ''orders'').
                  d ''userEmail'' = Some email \<longrightarrow>
                    quantity_field (d ''rewardGrams'') \<and> iso_createdAt rt d"
      and reds: "\<forall>(i, d) \<in> set (outstandingRedemptions email db). quantity_field (d ''grams'')"
  proof -
    have "filter (\<lambda>(i, d). d ''userEmail'' = Some email \<and> vested rt now d) (db ''orders'')
            = filter (\<lambda>(i, d). d ''userEmail'' = Some email \<and> earnedThirtyDaysAgo rt now d)
                (db ''orders'')"
      using orders by (intro filter_cong) (auto simp add: vested_earnedThirtyDaysAgo)
    then have "vestedGramsSum rt now email db
            = double_sum (map (\<lambda>(i, d). grams_of (d ''rewardGrams''))
                (filter (\<lambda>(i, d). d ''userEmail'' = Some email \<and> earnedThirtyDaysAgo rt now d)
                   (db ''orders'')))"
      by (simp add: vestedGramsSum_def)
    moreover have "\<forall>(i, d) \<in> set (db ''orders'').
        d ''userEmail'' = Some email \<longrightarrow> quantity_field (d ''rewardGrams'')"
      using orders by auto
    ultimately show ?thesis
      using redeemableGrams_quantities [OF _ reds, of rt now defaultPrice] by simp
  qed
  have iso: "vested rt now order \<longleftrightarrow> now - t \<ge> 30 * 24 * 60 * 60 * 1000"
    if "order ''createdAt'' = Some (JStr c)" "c \<noteq> []" "dateParse rt c = Fin (of_int t)" for c t
    using vested_iso [of order c rt t now] that by simp
  have spec: "earnedThirtyDaysAgo rt now order \<longleftrightarrow> now - t \<ge> 30 * 24 * 60 * 60 * 1000"
    if "order ''createdAt'' = Some (JStr c)" "c \<noteq> []" "dateParse rt c = Fin (of_int t)" for c t
  proof -
    have "earnedThirtyDaysAgo rt now order
            \<longleftrightarrow> (of_int 2592000000 :: rat) \<le> of_int (now - t)"
      using that by (simp add: earnedThirtyDaysAgo_def)
    also have "\<dots> \<longleftrightarrow> 2592000000 \<le> now - t" by (simp only: of_int_le_iff)
    finally show ?thesis by simp
  qed
  have vested_boundary: "vested rt now order"
    if "order ''createdAt'' = Some (JStr c)" "c \<noteq> []" "dateParse rt c = Fin (of_int t)"
      "t = now - 30 * 24 * 60 * 60 * 1000" for c t
    using iso [OF that(1-3)] that(4) by simp
  have unvested_boundary: "\<not> vested rt now order"
    if "order ''createdAt'' = Some (JStr c)" "c \<noteq> []" "dateParse rt c = Fin (of_int t)"
      "t = now - 30 * 24 * 60 * 60 * 1000 + 1" for c t
    using iso [OF that(1-3)] that(4) by simp
  have missing: "createdTime rt now order = Fin (of_int now) \<and> \<not> vested rt now order \<and>
      \<not> earnedThirtyDaysAgo rt now order"
    if "order ''createdAt'' = None"
    using that by (simp add: vested_missing createdTime_def earnedThirtyDaysAgo_def)
  show ?thesis
    using dashboard iso spec vested_boundary unvested_boundary missing by blast
qed


theorem vesting_rule_witness:
  "quantity_field (Some (JNum (Fin 5))) \<and>
   iso_createdAt \<lparr>dateParse = (\<lambda>s. Fin 0), numberToString = (\<lambda>n. []), stringToNumber = (\<lambda>s. NaN)\<rparr>
     [''userEmail'' \<mapsto> JStr ''a@b.com'', ''rewardGrams'' \<mapsto> JNum (Fin 5),
                ''createdAt'' \<mapsto> JStr ''1970-01-01T00:00:00.000Z''] \<and>
   redeemableGrams
     (getDashboardData
        \<lparr>dateParse = (\<lambda>s. Fin 0), numberToString = (\<lambda>n. []), stringToNumber = (\<lambda>s. NaN)\<rparr>
        2592000000 (Some (JStr ''a@b.com'')) (Some (JNum (Fin 60)))
        (empty_store(''orders'' :=
           [(''o1'', [''userEmail'' \<mapsto> JStr ''a@b.com'', ''rewardGrams'' \<mapsto> JNum (Fin 5),
                ''createdAt'' \<mapsto> JStr ''1970-01-01T00:00:00.000Z''])]))) = Fin 5 \<and>
   redeemableGrams
     (getDashboardData
        \<lparr>dateParse = (\<lambda>s. Fin 0), numberToString = (\<lambda>n. []), stringToNumber = (\<lambda>s. NaN)\<rparr>
        2591999999 (Some (JStr ''a@b.com'')) (Some (JNum (Fin 60)))
        (empty_store(''orders'' :=
           [(''o1'', [''userEmail'' \<mapsto> JStr ''a@b.com'', ''rewardGrams'' \<mapsto> JNum (Fin 5),
                ''createdAt'' \<mapsto> JStr ''1970-01-01T00:00:00.000Z''])]))) = Fin 0 \<and>
   redeemableGrams
     (getDashboardData
        \<lparr>dateParse = (\<lambda>s. Fin 0), numberToString = (\<lambda>n. []), stringToNumber = (\<lambda>s. NaN)\<rparr>
        2592000000 (Some (JStr ''a@b.com'')) (Some (JNum (Fin 60)))
        (empty_store(''orders'' :=
           [(''o1'', [''userEmail'' \<mapsto> JStr ''a@b.com'', ''rewardGrams'' \<mapsto> JNum (Fin 5)])]))) = Fin 0"
  using vesting_rule
    [where db = "empty_store(''orders'' :=
           [(''o1'', [''userEmail'' \<mapsto> JStr ''a@b.com'', ''rewardGrams'' \<mapsto> JNum (Fin 5),
                ''createdAt'' \<mapsto> JStr ''1970-01-01T00:00:00.000Z''])])"
       and email = "JStr ''a@b.com''"
       and rt = "\<lparr>dateParse = (\<lambda>s. Fin 0), numberToString = (\<lambda>n. []), stringToNumber = (\<lambda>s. NaN)\<rparr>"
       and now = 2592000000 and defaultPrice = "Some (JNum (Fin 60))"
       and order = "[''userEmail'' \<mapsto> JStr ''a@b.com'', ''rewardGrams'' \<mapsto> JNum (Fin 5),
                ''createdAt'' \<mapsto> JStr ''1970-01-01T00:00:00.000Z'']"]
    vesting_rule
    [where db = "empty_store(''orders'' :=
           [(''o1'', [''userEmail'' \<mapsto> JStr ''a@b.com'', ''rewardGrams'' \<mapsto> JNum (Fin 5),
                ''createdAt'' \<mapsto> JStr ''1970-01-01T00:00:00.000Z''])])"
       and email = "JStr ''a@b.com''"
       and rt = "\<lparr>dateParse = (\<lambda>s. Fin 0), numberToString = (\<lambda>n. []), stringToNumber = (\<lambda>s. NaN)\<rparr>"
       and now = 2591999999 and defaultPrice = "Some (JNum (Fin 60))"
       and order = "[''userEmail'' \<mapsto> JStr ''a@b.com'', ''rewardGrams'' \<mapsto> JNum (Fin 5),
                ''createdAt'' \<mapsto> JStr ''1970-01-01T00:00:00.000Z'']"]
    vesting_rule
    [where db = "empty_store(''orders'' :=
           [(''o1'', [''userEmail'' \<mapsto> JStr ''a@b.com'', ''rewardGrams'' \<mapsto> JNum (Fin 5)])])"
       and email = "JStr ''a@b.com''"
       and rt = "\<lparr>dateParse = (\<lambda>s. Fin 0), numberToString = (\<lambda>n. []), stringToNumber = (\<lambda>s. NaN)\<rparr>"
       and now = 2592000000 and defaultPrice = "Some (JNum (Fin 60))"
       and order = "[''userEmail'' \<mapsto> JStr ''a@b.com'', ''rewardGrams'' \<mapsto> JNum (Fin 5)]"]
  by (simp add: quantity_field_def iso_createdAt_def earnedThirtyDaysAgo_def double_sum_def
      grams_of_def sumOfOutstandingRedemptionGrams_def outstandingRedemptions_def
      num_sub_def Math_max_def empty_store_def)

text \<open>
  Claim C3. Once the \<open>userEmail\<close> of an order is set (to a value that \<open>!data.userEmail\<close>
  does not take for unset, as every successful claim writes one), no later call of
  \<open>claimOrder\<close>, with any order id and any email, changes the stored record: the first
  attribution wins. Claiming orders that are all claimed already, with the same email
  or with another one, writes nothing and returns the last matching order as it is
  stored, with the \<open>userEmail\<close> of the original claimant. Document keys are unique in the
  collection.
\<close>

theorem claimOrder_first_attribution_wins:
  assumes keys: "unique_keys db ''orders''"
    and stored: "doc_get db ''orders'' j = Some data"
    and claimed: "truthy (data ''userEmail'')"
  shows "(\<forall>r db'. claimOrder orderId email db = Inr (r, db') \<longrightarrow>
            doc_get db' ''orders'' j = Some data) \<and>
         (truthy orderId \<and> truthy email \<and>
          where_eq ''orderId'' orderId (db ''orders'') \<noteq> [] \<and>
          (\<forall>(i, d) \<in> set (where_eq ''orderId'' orderId (db ''orders'')).
              truthy (d ''userEmail'')) \<and>
          last (where_eq ''orderId'' orderId (db ''orders'')) = (j, data) \<longrightarrow>
            claimOrder orderId email db = Inr (Some (with_id j data), db))"
proof -
  let ?snap = "where_eq ''orderId'' orderId (db ''orders'')"
  have same: "d = data" if "(j, d) \<in> set ?snap" for d
  proof -
    from that have "(j, d) \<in> set (db ''orders'')" using where_eq_subset by fastforce
    with keys have "doc_get db ''orders'' j = Some d" by (rule doc_get_member)
    with stored show ?thesis by simp
  qed
  have frame: "doc_get (snd (claim_docs email ?snap None db)) ''orders'' j = doc_get db ''orders'' j"
    using same claimed by (intro claim_docs_frame) auto
  have first: "doc_get db' ''orders'' j = Some data"
    if "claimOrder orderId email db = Inr (r, db')" for r db'
  proof (cases "?snap = []")
    case True
    with that stored show ?thesis
      by (auto simp add: claimOrder_def Let_def split: if_splits)
  next
    case False
    with that have "db' = snd (claim_docs email ?snap None db)"
      by (auto simp add: claimOrder_def Let_def split: if_splits)
    with frame stored show ?thesis by simp
  qed
  have second: "claimOrder orderId email db = Inr (Some (with_id j data), db)"
    if args: "truthy orderId" "truthy email" and ne: "?snap \<noteq> []"
      and all: "\<forall>(i, d) \<in> set ?snap. truthy (d ''userEmail'')"
      and last: "last ?snap = (j, data)"
  proof -
    have unchanged: "snd (claim_docs email ?snap None db) = db"
      using all by (intro claim_docs_all_claimed) auto
    have "fst (claim_docs email ?snap None db) = Some (snapshot_object j (doc_get db ''orders'' j))"
      using claim_docs_result [OF ne, of email None db] unchanged last by simp
    with stored have "fst (claim_docs email ?snap None db) = Some (with_id j data)"
      by (simp add: snapshot_object_def)
    with unchanged have "claim_docs email ?snap None db = (Some (with_id j data), db)"
      by (simp add: prod_eq_iff)
    with args ne show ?thesis by (simp add: claimOrder_def Let_def)
  qed
  show ?thesis using first second by blast
qed

theorem claimOrder_first_attribution_wins_witness:
  "unique_keys (empty_store(''orders'' :=
       [(''o1'', [''orderId'' \<mapsto> JStr ''X'', ''userEmail'' \<mapsto> JStr ''a@b.com''])])) ''orders'' \<and>
   truthy ([''orderId'' \<mapsto> JStr ''X'', ''userEmail'' \<mapsto> JStr ''a@b.com''] ''userEmail'') \<and>
   claimOrder (Some (JStr ''X'')) (Some (JStr ''c@d.com''))
     (empty_store(''orders'' :=
       [(''o1'', [''orderId'' \<mapsto> JStr ''X'', ''userEmail'' \<mapsto> JStr ''a@b.com''])]))
     = Inr (Some (with_id ''o1'' [''orderId'' \<mapsto> JStr ''X'', ''userEmail'' \<mapsto> JStr ''a@b.com'']),
            empty_store(''orders'' :=
              [(''o1'', [''orderId'' \<mapsto> JStr ''X'', ''userEmail'' \<mapsto> JStr ''a@b.com''])]))"
  using claimOrder_first_attribution_wins
    [of "empty_store(''orders'' :=
           [(''o1'', [''orderId'' \<mapsto> JStr ''X'', ''userEmail'' \<mapsto> JStr ''a@b.com''])])"
        "''o1''" "[''orderId'' \<mapsto> JStr ''X'', ''userEmail'' \<mapsto> JStr ''a@b.com'']"
        "Some (JStr ''X'')" "Some (JStr ''c@d.com'')"]
  by (simp add: unique_keys_def doc_get_def where_eq_def)

text \<open>
  Claim C4. \<open>approveRedemption\<close> is idempotent. For an id with no document it returns
  \<open>null\<close> and leaves the store alone; for a redemption that is already approved it
  returns the record as it is and writes nothing, so \<open>approvedAt\<close> keeps its value;
  otherwise it sets \<open>status = approved\<close> and \<open>approvedAt = now\<close> and returns the
  refreshed record. A second call on the same id, at any later time, returns what the
  first call returned and leaves the store as the first call left it. No call of
  \<open>approveRedemption\<close> or \<open>createRedemption\<close>, the only writers of the collection,
  changes a redemption that is approved.
\<close>

theorem approveRedemption_idempotent:
  "(doc_get db ''redemptions'' i = None \<longrightarrow> approveRedemption nowIso i db = (None, db)) \<and>
   (\<forall>data. doc_get db ''redemptions'' i = Some data \<longrightarrow>
      (data ''status'' = Some (JStr ''approved'') \<longrightarrow>
         approveRedemption nowIso i db = (Some (with_id i data), db)) \<and>
      (data ''status'' \<noteq> Some (JStr ''approved'') \<longrightarrow>
         fst (approveRedemption nowIso i db)
           = Some (with_id i (data ++ [''status'' \<mapsto> JStr ''approved'',
                                      ''approvedAt'' \<mapsto> JStr nowIso])) \<and>
         doc_get (snd (approveRedemption nowIso i db)) ''redemptions'' i
           = Some (data ++ [''status'' \<mapsto> JStr ''approved'',
                           ''approvedAt'' \<mapsto> JStr nowIso]))) \<and>
   approveRedemption later i (snd (approveRedemption nowIso i db))
     = approveRedemption nowIso i db \<and>
   (\<forall>j data. doc_get db ''redemptions'' j = Some data \<and>
              data ''status'' = Some (JStr ''approved'') \<longrightarrow>
      doc_get (snd (approveRedemption nowIso i db)) ''redemptions'' j = Some data \<and>
      doc_get (snd (createRedemption now rnd newId input db)) ''redemptions'' j = Some data)"
proof -
  have pending: "\<And>data. doc_get db ''redemptions'' i = Some data \<Longrightarrow>
      data ''status'' \<noteq> Some (JStr ''approved'') \<Longrightarrow>
      doc_get (snd (approveRedemption nowIso i db)) ''redemptions'' i
        = Some (data ++ [''status'' \<mapsto> JStr ''approved'', ''approvedAt'' \<mapsto> JStr nowIso])"
    by (simp add: approveRedemption_pending doc_get_update_same)
  have created: "\<And>j data. doc_get db ''redemptions'' j = Some data \<Longrightarrow>
      doc_get (snd (createRedemption now rnd newId input db)) ''redemptions'' j = Some data"
    by (simp add: createRedemption_def Let_def doc_get_add_old)
  show ?thesis
    using pending created
    by (simp add: approveRedemption_missing approveRedemption_approved approveRedemption_pending
        approveRedemption_twice approveRedemption_keeps_approved)
qed

theorem approveRedemption_idempotent_witness:
  "doc_get (empty_store(''redemptions'' :=
       [(''r1'', [''grams'' \<mapsto> JNum (Fin 2), ''status'' \<mapsto> JStr ''pending''])]))
     ''redemptions'' ''r1''
     = Some [''grams'' \<mapsto> JNum (Fin 2), ''status'' \<mapsto> JStr ''pending''] \<and>
   fst (approveRedemption ''2024-03-01T00:00:00.000Z'' ''r1''
     (empty_store(''redemptions'' :=
       [(''r1'', [''grams'' \<mapsto> JNum (Fin 2), ''status'' \<mapsto> JStr ''pending''])])))
     = Some (with_id ''r1'' [''grams'' \<mapsto> JNum (Fin 2), ''status'' \<mapsto> JStr ''approved'',
               ''approvedAt'' \<mapsto> JStr ''2024-03-01T00:00:00.000Z'']) \<and>
   fst (approveRedemption ''2024-03-02T00:00:00.000Z'' ''r1''
     (snd (approveRedemption ''2024-03-01T00:00:00.000Z'' ''r1''
       (empty_store(''redemptions'' :=
         [(''r1'', [''grams'' \<mapsto> JNum (Fin 2), ''status'' \<mapsto> JStr ''pending''])])))))
     = Some (with_id ''r1'' [''grams'' \<mapsto> JNum (Fin 2), ''status'' \<mapsto> JStr ''approved'',
               ''approvedAt'' \<mapsto> JStr ''2024-03-01T00:00:00.000Z''])"
  using approveRedemption_idempotent
    [of "empty_store(''redemptions'' :=
           [(''r1'', [''grams'' \<mapsto> JNum (Fin 2), ''status'' \<mapsto> JStr ''pending''])])"
        "''r1''" "''2024-03-01T00:00:00.000Z''" "''2024-03-02T00:00:00.000Z''"]
  by (simp add: doc_get_def)

text \<open>
  Claim C5: an upsert of an existing user keeps \<open>createdAt\<close>, keeps the fields the input
  does not name, and refreshes \<open>updatedAt\<close>. The last two hold for every input (the
  lemmas \<open>createUser_keeps_unnamed_fields\<close> and \<open>createUser_refreshes_updatedAt\<close>), and
  \<open>createdAt\<close>, as a field like the others, is kept when the input does not name it.
  The code's comment promises more, that the merge preserves \<open>createdAt\<close>; the object it
  writes is \<open>{...existing, ...rest, updatedAt: now}\<close>, so an input that carries a
  \<open>createdAt\<close> of its own replaces the stored one. The evaluation below is that case: a
  user created on 2024-01-01, upserted with \<open>createdAt\<close> of 1999-01-01 in the data.
\<close>

theorem createUser_overwrites_createdAt:
  "\<not> isl (createUser ''2024-06-01T00:00:00.000Z''
            [''email'' \<mapsto> JStr ''a@b.com'', ''createdAt'' \<mapsto> JStr ''1999-01-01T00:00:00.000Z'']
            (empty_store(''users'' :=
               [(''a@b.com'', [''email'' \<mapsto> JStr ''a@b.com'',
                               ''createdAt'' \<mapsto> JStr ''2024-01-01T00:00:00.000Z'',
                               ''updatedAt'' \<mapsto> JStr ''2024-01-01T00:00:00.000Z''])]))) \<and>
   stored_field
     (empty_store(''users'' :=
        [(''a@b.com'', [''email'' \<mapsto> JStr ''a@b.com'',
                        ''createdAt'' \<mapsto> JStr ''2024-01-01T00:00:00.000Z'',
                        ''updatedAt'' \<mapsto> JStr ''2024-01-01T00:00:00.000Z''])]))
     ''users'' ''a@b.com'' ''createdAt'' = Some (JStr ''2024-01-01T00:00:00.000Z'') \<and>
   stored_field
     (snd (projr (createUser ''2024-06-01T00:00:00.000Z''
            [''email'' \<mapsto> JStr ''a@b.com'', ''createdAt'' \<mapsto> JStr ''1999-01-01T00:00:00.000Z'']
            (empty_store(''users'' :=
               [(''a@b.com'', [''email'' \<mapsto> JStr ''a@b.com'',
                               ''createdAt'' \<mapsto> JStr ''2024-01-01T00:00:00.000Z'',
                               ''updatedAt'' \<mapsto> JStr ''2024-01-01T00:00:00.000Z''])])))))
     ''users'' ''a@b.com'' ''createdAt'' = Some (JStr ''1999-01-01T00:00:00.000Z'')"
  by (simp add: createUser_def Let_def doc_set_merge_def doc_update_def stored_field_def
      doc_get_def empty_store_def)

text \<open>
  Claim C6, as stated: \<open>listOrders(email)\<close> returns the orders whose \<open>userEmail\<close> equals
  the argument. The query of the code is on the field \<open>email\<close>: an order claimed by
  \<open>a@b.com\<close> that has no \<open>email\<close> field is not listed for \<open>a@b.com\<close>.
\<close>

theorem listOrders_userEmail_counterexample:
  "listOrders (Some (JStr ''a@b.com''))
     (empty_store(''orders'' := [(''o1'', [''userEmail'' \<mapsto> JStr ''a@b.com''])])) = [] \<and>
   where_eq ''userEmail'' (Some (JStr ''a@b.com''))
     ((empty_store(''orders'' := [(''o1'', [''userEmail'' \<mapsto> JStr ''a@b.com''])])) ''orders'')
     = [(''o1'', [''userEmail'' \<mapsto> JStr ''a@b.com''])]"
  by (simp add: listOrders_def where_eq_def snapshot_objects_def empty_store_def)

text \<open>
  Claim C6, amended. With an argument that is truthy, \<open>listOrders\<close> returns exactly the
  orders whose \<open>email\<close> field equals it, in store order; with no argument (or a falsy
  one, such as the empty string) it returns all orders; when no order matches, the result
  is the empty list.
\<close>

theorem listOrders_filters_email_field:
  "(truthy email \<longrightarrow>
      listOrders email db
        = snapshot_objects (filter (\<lambda>(i, d). d ''email'' = email) (db ''orders''))) \<and>
   (\<not> truthy email \<longrightarrow> listOrders email db = snapshot_objects (db ''orders'')) \<and>
   length (listOrders None db) = length (db ''orders'') \<and>
   ((\<forall>(i, d) \<in> set (db ''orders''). d ''email'' \<noteq> email) \<longrightarrow> truthy email \<longrightarrow>
      listOrders email db = [])"
proof -
  have eq: "truthy email \<Longrightarrow>
      where_eq ''email'' email (db ''orders'')
        = filter (\<lambda>(i, d). d ''email'' = email) (db ''orders'')"
    by (cases email) (auto simp add: where_eq_def intro: filter_cong)
  have none: "(\<forall>(i, d) \<in> set (db ''orders''). d ''email'' \<noteq> email) \<Longrightarrow>
      filter (\<lambda>(i, d). d ''email'' = email) (db ''orders'') = []"
    by (auto simp add: filter_empty_conv)
  show ?thesis
    using eq none by (auto simp add: listOrders_def snapshot_objects_def)
qed

theorem listOrders_filters_email_field_witness:
  "truthy (Some (JStr ''nobody@x.com'')) \<and>
   listOrders (Some (JStr ''nobody@x.com''))
     (empty_store(''orders'' := [(''o1'', [''email'' \<mapsto> JStr ''a@b.com''])])) = [] \<and>
   listOrders (Some (JStr ''a@b.com''))
     (empty_store(''orders'' := [(''o1'', [''email'' \<mapsto> JStr ''a@b.com''])]))
     = [with_id ''o1'' [''email'' \<mapsto> JStr ''a@b.com'']]"
  using listOrders_filters_email_field
    [of "Some (JStr ''nobody@x.com'')"
        "empty_store(''orders'' := [(''o1'', [''email'' \<mapsto> JStr ''a@b.com''])])"]
    listOrders_filters_email_field
    [of "Some (JStr ''a@b.com'')"
        "empty_store(''orders'' := [(''o1'', [''email'' \<mapsto> JStr ''a@b.com''])])"]
  by (simp add: snapshot_objects_def)

text \<open>
  Claim C7, as stated: a \<open>createRedemption\<close> input without a \<open>status\<close> field is stored
  with \<open>status = pending\<close>. The code does not default the field; the stored record of
  such an input has no \<open>status\<close>.
\<close>

theorem createRedemption_status_counterexample:
  "stored_field
     (snd (createRedemption 0 ''0.4fzyo82mvyr'' ''r1''
             [''email'' \<mapsto> JStr ''a@b.com'', ''grams'' \<mapsto> JNum (Fin 2)] empty_store))
     ''redemptions'' ''r1'' ''status'' \<noteq> Some (JStr ''pending'')"
  by (simp add: stored_field_def createRedemption_def coll_add_def doc_get_def empty_store_def
      Let_def)

text \<open>
  Claim C7, amended. \<open>createRedemption\<close> stores its input with a \<open>_customId\<close> added, under
  the key the store generates, and nothing else: the \<open>status\<close> of the stored record and
  of the returned object is the \<open>status\<close> of the input, absent when the input has none.
\<close>

theorem createRedemption_stores_input_status:
  assumes "doc_get db ''redemptions'' newId = None"
  shows "doc_get (snd (createRedemption now rnd newId data db)) ''redemptions'' newId
           = Some (data ++ [''_customId'' \<mapsto> JStr (generateId now rnd)])
         \<and> stored_field (snd (createRedemption now rnd newId data db))
             ''redemptions'' newId ''status'' = data ''status''
         \<and> fst (createRedemption now rnd newId data db) ''status'' = data ''status''"
  using doc_get_add_same [OF assms]
  by (simp add: createRedemption_def Let_def stored_field_def with_id_def map_add_def
      split: option.splits)

theorem createRedemption_stores_input_status_witness:
  "doc_get empty_store ''redemptions'' ''r1'' = None \<and>
   stored_field
     (snd (createRedemption 0 ''0.4fzyo82mvyr'' ''r1'' [''grams'' \<mapsto> JNum (Fin 2)] empty_store))
     ''redemptions'' ''r1'' ''status'' = None"
  using createRedemption_stores_input_status
    [of empty_store "''r1''" 0 "''0.4fzyo82mvyr''" "[''grams'' \<mapsto> JNum (Fin 2)]"]
  by (simp add: doc_get_def empty_store_def)




text \<open>
  Claim C9. From the empty store, with no gold-price record, \<open>createOrder({rewardGrams:
  5, orderId: "X"})\<close>, then \<open>claimOrder("X", "a@b.com")\<close>, then the dashboard of
  \<open>a@b.com\<close> with default price 50: the claim succeeds, \<open>totalGrams = 5\<close>,
  \<open>totalValue = 250\<close> and \<open>redeemableGrams = 0\<close>, at whatever times the three calls are
  made and whatever identifiers are generated. The order has no \<open>createdAt\<close>, so the
  dashboard takes it as earned now.
\<close>

theorem order_claim_dashboard_round_trip:
  "\<not> isl (claimOrder (Some (JStr ''X'')) (Some (JStr ''a@b.com''))
            (snd (createOrder created rnd newId
                    [''rewardGrams'' \<mapsto> JNum (Fin 5), ''orderId'' \<mapsto> JStr ''X''] empty_store))) \<and>
   totalGrams (getDashboardData rt now (Some (JStr ''a@b.com'')) (Some (JNum (Fin 50)))
     (snd (projr (claimOrder (Some (JStr ''X'')) (Some (JStr ''a@b.com''))
            (snd (createOrder created rnd newId
                    [''rewardGrams'' \<mapsto> JNum (Fin 5), ''orderId'' \<mapsto> JStr ''X''] empty_store))))))
     = JNum (Fin 5) \<and>
   totalValue (getDashboardData rt now (Some (JStr ''a@b.com'')) (Some (JNum (Fin 50)))
     (snd (projr (claimOrder (Some (JStr ''X'')) (Some (JStr ''a@b.com''))
            (snd (createOrder created rnd newId
                    [''rewardGrams'' \<mapsto> JNum (Fin 5), ''orderId'' \<mapsto> JStr ''X''] empty_store))))))
     = Fin 250 \<and>
   redeemableGrams (getDashboardData rt now (Some (JStr ''a@b.com'')) (Some (JNum (Fin 50)))
     (snd (projr (claimOrder (Some (JStr ''X'')) (Some (JStr ''a@b.com''))
            (snd (createOrder created rnd newId
                    [''rewardGrams'' \<mapsto> JNum (Fin 5), ''orderId'' \<mapsto> JStr ''X''] empty_store))))))
     = Fin 0"
proof -
  let ?order = "[''rewardGrams'' \<mapsto> JNum (Fin 5), ''orderId'' \<mapsto> JStr ''X'',
                 ''_customId'' \<mapsto> JStr (generateId created rnd)]"
  let ?db1 = "snd (createOrder created rnd newId
                [''rewardGrams'' \<mapsto> JNum (Fin 5), ''orderId'' \<mapsto> JStr ''X''] empty_store)"
  let ?db2 = "empty_store(''orders'' := [(newId, ?order(''userEmail'' \<mapsto> JStr ''a@b.com''))])"
  have db1: "?db1 = empty_store(''orders'' := [(newId, ?order)])"
    by (simp add: createOrder_def coll_add_def empty_store_def Let_def)
  have claim: "claimOrder (Some (JStr ''X'')) (Some (JStr ''a@b.com'')) ?db1
      = Inr (Some (with_id newId (?order(''userEmail'' \<mapsto> JStr ''a@b.com''))), ?db2)"
    unfolding db1
    by (simp add: claimOrder_def where_eq_def Let_def doc_update_def doc_get_def
        snapshot_object_def empty_store_def)
  have loop: "order_loop rt now (Some (JNum (Fin 50)))
      [with_id newId (?order(''userEmail'' \<mapsto> JStr ''a@b.com''))]
      (JNum (Fin 0), Fin 0, JNum (Fin 0)) = (JNum (Fin 5), Fin 250, JNum (Fin 0))"
    by (simp add: with_id_def or_zero_def js_or_def js_add_def js_mul_def vested_def
        createdTime_def num_sub_def thirtyDays_def)
  have dash: "getDashboardData rt now (Some (JStr ''a@b.com'')) (Some (JNum (Fin 50))) ?db2
      = \<lparr> totalGrams = JNum (Fin 5), totalValue = Fin 250, redeemableGrams = Fin 0,
           currentPrice = Some (JNum (Fin 50)),
           orders = [with_id newId (?order(''userEmail'' \<mapsto> JStr ''a@b.com''))],
           shops = [],
           progress = \<lparr> current = JNum (Fin 5), nextMilestone = Fin 5,
                        progressPercent = Fin 1 \<rparr> \<rparr>"
    by (simp add: getDashboardData_def getGoldPrice_def doc_get_def empty_store_def
        where_eq_def where_in_def snapshot_objects_def loop Let_def toFixed_250
        parseFloat_250 [simplified] js_sub_def num_sub_def Math_max_def js_div_def
        del: order_loop.simps)
  show ?thesis
    unfolding claim by (simp add: dash)
qed

theorem order_claim_dashboard_round_trip_witness:
  "\<not> isl (claimOrder (Some (JStr ''X'')) (Some (JStr ''a@b.com''))
            (snd (createOrder 1700000000000 ''0.4fzyo82mvyr'' ''o1''
                    [''rewardGrams'' \<mapsto> JNum (Fin 5), ''orderId'' \<mapsto> JStr ''X''] empty_store))) \<and>
   totalGrams (getDashboardData
       \<lparr>dateParse = (\<lambda>s. NaN), numberToString = (\<lambda>n. []), stringToNumber = (\<lambda>s. NaN)\<rparr>
       1700000000500 (Some (JStr ''a@b.com'')) (Some (JNum (Fin 50)))
     (snd (projr (claimOrder (Some (JStr ''X'')) (Some (JStr ''a@b.com''))
            (snd (createOrder 1700000000000 ''0.4fzyo82mvyr'' ''o1''
                    [''rewardGrams'' \<mapsto> JNum (Fin 5), ''orderId'' \<mapsto> JStr ''X''] empty_store))))))
     = JNum (Fin 5) \<and>
   totalValue (getDashboardData
       \<lparr>dateParse = (\<lambda>s. NaN), numberToString = (\<lambda>n. []), stringToNumber = (\<lambda>s. NaN)\<rparr>
       1700000000500 (Some (JStr ''a@b.com'')) (Some (JNum (Fin 50)))
     (snd (projr (claimOrder (Some (JStr ''X'')) (Some (JStr ''a@b.com''))
            (snd (createOrder 1700000000000 ''0.4fzyo82mvyr'' ''o1''
                    [''rewardGrams'' \<mapsto> JNum (Fin 5), ''orderId'' \<mapsto> JStr ''X''] empty_store))))))
     = Fin 250 \<and>
   redeemableGrams (getDashboardData
       \<lparr>dateParse = (\<lambda>s. NaN), numberToString = (\<lambda>n. []), stringToNumber = (\<lambda>s. NaN)\<rparr>
       1700000000500 (Some (JStr ''a@b.com'')) (Some (JNum (Fin 50)))
     (snd (projr (claimOrder (Some (JStr ''X'')) (Some (JStr ''a@b.com''))
            (snd (createOrder 1700000000000 ''0.4fzyo82mvyr'' ''o1''
                    [''rewardGrams'' \<mapsto> JNum (Fin 5), ''orderId'' \<mapsto> JStr ''X''] empty_store))))))
     = Fin 0"
  by (rule order_claim_dashboard_round_trip)

text \<open>
  Claim C10. The default of \<open>getGoldPrice\<close> applies only when the document
  \<open>config/goldPrice\<close> is absent. When the document exists, the result is its \<open>price\<close>
  field as it is, so a document without a \<open>price\<close> field gives \<open>undefined\<close> and not the
  caller's default.
\<close>

theorem getGoldPrice_document_wins:
  "(doc_get db ''config'' ''goldPrice'' = None \<longrightarrow> getGoldPrice defaultPrice db = defaultPrice) \<and>
   (\<forall>data. doc_get db ''config'' ''goldPrice'' = Some data \<longrightarrow>
        getGoldPrice defaultPrice db = data ''price'' \<and>
        (data ''price'' = None \<longrightarrow> getGoldPrice defaultPrice db = None))"
  by (simp add: getGoldPrice_def)

theorem getGoldPrice_document_wins_witness:
  "doc_get (empty_store(''config'' := [(''goldPrice'', [''updatedAt'' \<mapsto> JStr ''2024-01-01T00:00:00.000Z''])]))
      ''config'' ''goldPrice'' = Some [''updatedAt'' \<mapsto> JStr ''2024-01-01T00:00:00.000Z''] \<and>
   getGoldPrice (Some (JNum (Fin 60)))
     (empty_store(''config'' := [(''goldPrice'', [''updatedAt'' \<mapsto> JStr ''2024-01-01T00:00:00.000Z''])]))
     = None"
  using getGoldPrice_document_wins
    [of "empty_store(''config'' := [(''goldPrice'', [''updatedAt'' \<mapsto> JStr ''2024-01-01T00:00:00.000Z''])])"
        "Some (JNum (Fin 60))"]
  by (simp add: doc_get_def)

end
